theory Spec2Isabelle
  imports Main
begin

section \<open>Values of the source language\<close>

text \<open>
  The importer is a TypeScript program. Its inputs are typed by the interfaces of
  \<^verbatim>\<open>allure2testit-cli.ts\<close>; what the remote service sends back is untyped JSON
  (\<^verbatim>\<open>any\<close>). Typed data is modelled by datatypes and records, untyped data by
  \<open>jsval\<close>. Numbers are the integer epoch-millisecond and status values the program
  handles, modelled as \<open>int\<close> (the result of a subtraction is a \<open>number\<close>, which may
  be infinite); an optional field (\<^verbatim>\<open>?:\<close>, or one the code guards with
  \<^verbatim>\<open>??\<close> or a truthiness test) is an \<open>option\<close>, \<open>None\<close> standing for
  \<^verbatim>\<open>undefined\<close>.
\<close>

datatype jsval =
    JUndefined
  | JNull
  | JBool bool
  | JNum int
  | JStr string
  | JArr "jsval list"
  | JObj "(string \<times> jsval) list"

datatype error =
    Error string
  | TypeError
  | RangeError
  | SystemError
  | FetchError
  | ProcessExit nat

text \<open>Truthiness, as used by \<^verbatim>\<open>!x\<close>, \<^verbatim>\<open>x && y\<close>, \<^verbatim>\<open>x ? a : b\<close> and \<^verbatim>\<open>if (x)\<close>.\<close>

fun truthy :: "jsval \<Rightarrow> bool" where
  "truthy JUndefined = False"
| "truthy JNull = False"
| "truthy (JBool b) = b"
| "truthy (JNum n) = (n \<noteq> 0)"
| "truthy (JStr s) = (s \<noteq> [])"
| "truthy (JArr xs) = True"
| "truthy (JObj kvs) = True"

definition truthy_string :: "string option \<Rightarrow> bool" where
  "truthy_string s = (case s of None \<Rightarrow> False | Some x \<Rightarrow> x \<noteq> [])"

definition truthy_number :: "int option \<Rightarrow> bool" where
  "truthy_number v = (case v of None \<Rightarrow> False | Some n \<Rightarrow> n \<noteq> 0)"

text \<open>\<^verbatim>\<open>x ?? d\<close>\<close>

definition nullish :: "'a option \<Rightarrow> 'a \<Rightarrow> 'a" where
  "nullish x d = (case x of None \<Rightarrow> d | Some v \<Rightarrow> v)"

text \<open>\<^verbatim>\<open>s.endsWith(t)\<close>\<close>

definition endsWith :: "string \<Rightarrow> string \<Rightarrow> bool" where
  "endsWith s t = (length t \<le> length s \<and> drop (length s - length t) s = t)"

section \<open>Status, duration and URL normalisation\<close>

text \<open>\<^verbatim>\<open>allureStatusToOutcome\<close>, lines 192-202.\<close>

definition allureStatusToOutcome :: "string option \<Rightarrow> string" where
  "allureStatusToOutcome status =
     (if status = None then ''Blocked''
      else if status = Some ''passed'' then ''Passed''
      else if status = Some ''skipped'' then ''Skipped''
      else ''Failed'')"

text \<open>
  The numbers of the program are IEEE-754 doubles, and \<^verbatim>\<open>-\<close> on two of them is the
  double nearest to the exact difference, a tie going to the even significand. A
  significand has 53 bits, so an integer of at most 53 bits (and \<open>2 ^ 53\<close> itself) is
  a double; a longer one is rounded to a multiple of the power of two that its
  length exceeds 53 bits by. \<open>bit_length\<close> is the number of binary digits of a
  natural number. A result that rounds to \<open>2 ^ 1024\<close> or beyond, on either side, is
  an infinity. (Two finite numbers have a difference, so the result is never
  \<^verbatim>\<open>NaN\<close>.)
\<close>

fun bit_length :: "nat \<Rightarrow> nat" where
  "bit_length n = (if n = 0 then 0 else Suc (bit_length (n div 2)))"

declare bit_length.simps [simp del]

definition round_double :: "int \<Rightarrow> int" where
  "round_double x =
     (if \<bar>x\<bar> \<le> 9007199254740992 then x
      else
        let s = bit_length (nat \<bar>x\<bar>) - 53;
            q = \<bar>x\<bar> div 2 ^ s;
            r = \<bar>x\<bar> mod 2 ^ s;
            q' = (if 2 ^ (s - 1) < r \<or> (r = 2 ^ (s - 1) \<and> odd q) then q + 1 else q)
        in sgn x * (q' * 2 ^ s))"

datatype number = Finite int | PosInfinity | NegInfinity

definition number_minus :: "int \<Rightarrow> int \<Rightarrow> number" where
  "number_minus x y =
     (let d = round_double (x - y)
      in if 2 ^ 1024 \<le> d then PosInfinity
         else if d \<le> - (2 ^ 1024) then NegInfinity
         else Finite d)"


text \<open>
  The expression \<^verbatim>\<open>x.start && x.stop ? (x.stop - x.start) : 0\<close> of lines 165, 179
  and 224.
\<close>

definition duration :: "int option \<Rightarrow> int option \<Rightarrow> number" where
  "duration start stop =
     (if truthy_number start \<and> truthy_number stop
      then number_minus (the stop) (the start) else Finite 0)"

text \<open>The expression of line 83 that \<^verbatim>\<open>parseArgs\<close> stores in \<^verbatim>\<open>url\<close>.\<close>

definition normalizeUrl :: "string \<Rightarrow> string" where
  "normalizeUrl u = (if endsWith u ''/'' then u else u @ ''/'')"

section \<open>Decimal and ISO-8601 rendering\<close>

text \<open>Decimal digits of a natural number, as a template literal prints it.\<close>

fun show_nat :: "nat \<Rightarrow> string" where
  "show_nat n =
     (if n < 10 then [''0123456789'' ! n]
      else show_nat (n div 10) @ [''0123456789'' ! (n mod 10)])"

declare show_nat.simps [simp del]

definition show_int :: "int \<Rightarrow> string" where
  "show_int i = (if i < 0 then ''-'' @ show_nat (nat (- i)) else show_nat (nat i))"

text \<open>\<open>pad w n\<close>: the decimal digits of \<open>n\<close>, filled with zeros on the left to width \<open>w\<close>.\<close>

definition pad :: "nat \<Rightarrow> nat \<Rightarrow> string" where
  "pad w n = replicate (w - length (show_nat n)) (CHR ''0'') @ show_nat n"

text \<open>
  \<^verbatim>\<open>new Date(value).toISOString()\<close> is a function of the platform, not of this
  repository. It is modelled after its ECMAScript definition: a time value beyond
  8.64e15 milliseconds on either side of the epoch makes an invalid date, for which
  \<^verbatim>\<open>toISOString\<close> throws a RangeError; every other value is printed in UTC as
  \<^verbatim>\<open>YYYY-MM-DDTHH:mm:ss.sssZ\<close>, the year with a sign and six digits when it is not
  within 0 to 9999. \<open>civil\<close> is the proleptic Gregorian date (year, month, day) of a day
  number counted from 1970-01-01.
\<close>

definition civil :: "int \<Rightarrow> int \<times> nat \<times> nat" where
  "civil days =
     (let z = days + 719468;
          era = z div 146097;
          doe = z mod 146097;
          yoe = (doe - doe div 1460 + doe div 36524 - doe div 146096) div 365;
          doy = doe - (365 * yoe + yoe div 4 - yoe div 100);
          mp = (5 * doy + 2) div 153;
          d = doy - (153 * mp + 2) div 5 + 1;
          m = (if mp < 10 then mp + 3 else mp - 9);
          y = yoe + era * 400 + (if m \<le> 2 then 1 else 0)
      in (y, nat m, nat d))"

definition show_year :: "int \<Rightarrow> string" where
  "show_year y =
     (if 0 \<le> y \<and> y \<le> 9999 then pad 4 (nat y)
      else if y < 0 then ''-'' @ pad 6 (nat (- y))
      else ''+'' @ pad 6 (nat y))"

definition toISOString :: "int \<Rightarrow> error + string" where
  "toISOString t =
     (if t < - 8640000000000000 \<or> 8640000000000000 < t then Inl RangeError
      else
        let (y, m, d) = civil (t div 86400000);
            ms = nat (t mod 86400000)
        in Inr (show_year y @ ''-'' @ pad 2 m @ ''-'' @ pad 2 d @ ''T''
                @ pad 2 (ms div 3600000) @ '':'' @ pad 2 (ms div 60000 mod 60) @ '':''
                @ pad 2 (ms div 1000 mod 60) @ ''.'' @ pad 3 (ms mod 1000) @ ''Z''))"

text \<open>
  \<^verbatim>\<open>convertAllureTimestamp\<close>, line 273:
  \<^verbatim>\<open>value ? (new Date(value)).toISOString() : null\<close>. \<open>None\<close> is \<^verbatim>\<open>null\<close>.
\<close>

definition convertAllureTimestamp :: "int option \<Rightarrow> error + string option" where
  "convertAllureTimestamp v =
     (if truthy_number v
      then (case toISOString (the v) of Inl e \<Rightarrow> Inl e | Inr s \<Rightarrow> Inr (Some s))
      else Inr None)"

section \<open>The data of the importer\<close>

text \<open>
  The interfaces of lines 6-58. A selector carries a prefix where two interfaces share a
  field name. \<open>Attachment\<close> is the descriptor the uploader reads (\<^verbatim>\<open>source\<close> and
  \<^verbatim>\<open>type\<close>); \<open>AttachRef\<close> is the reference \<^verbatim>\<open>{ id: resp.id }\<close> it returns.
\<close>

record Attachment =
  source :: string
  contentType :: string

datatype AllureStep =
  AllureStep
    (step_name: "string option")
    (step_steps: "AllureStep list option")
    (step_attachments: "Attachment list option")
    (step_parameters: "(string \<times> string) list option")
    (step_status: "string option")
    (step_start: "int option")
    (step_stop: "int option")

datatype StepSpec = StepSpec (spec_title: string) (spec_steps: "StepSpec list")

datatype AttachRef = AttachRef (ref_id: jsval)

datatype StepResult =
  StepResult
    (sr_title: string)
    (sr_stepResults: "StepResult list")
    (sr_outcome: string)
    (sr_duration: number)
    (sr_parameters: "(string \<times> string) list")
    (sr_attachments: "AttachRef list")

record StatusDetails =
  message :: string
  trace :: string

record AllureResult =
  historyId :: string
  name :: string
  steps :: "AllureStep list option"
  labels :: "(string \<times> string) list option"
  start :: "int option"
  stop :: "int option"
  status :: "string option"
  attachments :: "Attachment list option"
  statusDetails :: StatusDetails

record Args =
  inputDir :: string
  url :: string
  token :: string
  projectId :: string
  configurationId :: string
  testRunName :: string

section \<open>Objects and property access\<close>

text \<open>
  An object with string keys is its list of own properties in the order of their
  creation. \<open>set_prop\<close> is an assignment \<^verbatim>\<open>obj[k] = v\<close>: a key that exists keeps its
  place and takes the new value. \<open>Object_fromEntries\<close> assigns the entries from left to
  right, so the last entry of a key is the one that stays.
\<close>

fun set_prop :: "(string \<times> 'a) list \<Rightarrow> string \<Rightarrow> 'a \<Rightarrow> (string \<times> 'a) list" where
  "set_prop [] k v = [(k, v)]"
| "set_prop ((k', v') # kvs) k v =
     (if k' = k then (k', v) # kvs else (k', v') # set_prop kvs k v)"

definition Object_fromEntries :: "(string \<times> 'a) list \<Rightarrow> (string \<times> 'a) list" where
  "Object_fromEntries es = foldl (\<lambda>obj (k, v). set_prop obj k v) [] es"

text \<open>
  Enumeration (\<^verbatim>\<open>Object.keys\<close>, \<^verbatim>\<open>Object.values\<close>) visits the keys that are array
  indices first, in ascending numeric order, and then the other keys in the order of
  their creation. A key is an array index when it is the decimal form of a number below
  \<open>2^32 - 1\<close>.
\<close>

definition digit_of :: "char \<Rightarrow> nat option" where
  "digit_of c =
     (let n = (of_char c :: nat) in if 48 \<le> n \<and> n \<le> 57 then Some (n - 48) else None)"

fun nat_of_digits :: "nat \<Rightarrow> string \<Rightarrow> nat option" where
  "nat_of_digits acc [] = Some acc"
| "nat_of_digits acc (c # cs) =
     (case digit_of c of None \<Rightarrow> None | Some d \<Rightarrow> nat_of_digits (10 * acc + d) cs)"

definition array_index :: "string \<Rightarrow> nat option" where
  "array_index k =
     (if k = [] then None
      else case nat_of_digits 0 k of
             None \<Rightarrow> None
           | Some n \<Rightarrow> if n < 4294967295 \<and> show_nat n = k then Some n else None)"

definition Object_entries :: "(string \<times> 'a) list \<Rightarrow> (string \<times> 'a) list" where
  "Object_entries obj =
     sort_key (\<lambda>kv. the (array_index (fst kv))) (filter (\<lambda>kv. array_index (fst kv) \<noteq> None) obj)
     @ filter (\<lambda>kv. array_index (fst kv) = None) obj"

definition Object_keys :: "(string \<times> 'a) list \<Rightarrow> string list" where
  "Object_keys obj = map fst (Object_entries obj)"

definition Object_values :: "(string \<times> 'a) list \<Rightarrow> 'a list" where
  "Object_values obj = map snd (Object_entries obj)"

text \<open>
  \<^verbatim>\<open>v.k\<close> and \<^verbatim>\<open>v[k]\<close> on an untyped value: reading a property of \<^verbatim>\<open>null\<close> or
  \<^verbatim>\<open>undefined\<close> throws a TypeError; an object gives its own property or
  \<^verbatim>\<open>undefined\<close>; an array and a string give their \<^verbatim>\<open>length\<close> and their elements;
  the properties this program reads (\<^verbatim>\<open>name\<close>, \<^verbatim>\<open>id\<close>, \<^verbatim>\<open>length\<close>, \<^verbatim>\<open>0\<close>) are
  inherited from no prototype.
\<close>

fun get_prop :: "jsval \<Rightarrow> string \<Rightarrow> error + jsval" where
  "get_prop JUndefined k = Inl TypeError"
| "get_prop JNull k = Inl TypeError"
| "get_prop (JBool b) k = Inr JUndefined"
| "get_prop (JNum n) k = Inr JUndefined"
| "get_prop (JStr s) k =
     (if k = ''length'' then Inr (JNum (int (length s)))
      else case array_index k of
             None \<Rightarrow> Inr JUndefined
           | Some i \<Rightarrow> if i < length s then Inr (JStr [s ! i]) else Inr JUndefined)"
| "get_prop (JArr xs) k =
     (if k = ''length'' then Inr (JNum (int (length xs)))
      else case array_index k of
             None \<Rightarrow> Inr JUndefined
           | Some i \<Rightarrow> if i < length xs then Inr (xs ! i) else Inr JUndefined)"
| "get_prop (JObj kvs) k =
     (case map_of kvs k of None \<Rightarrow> Inr JUndefined | Some v \<Rightarrow> Inr v)"

text \<open>
  The string a template literal \<^verbatim>\<open>${v}\<close> makes of an untyped value. A number
  prints in decimal, as JavaScript prints an integer below \<open>10^21\<close>. An array joins
  its elements with commas, \<^verbatim>\<open>null\<close> and \<^verbatim>\<open>undefined\<close> elements printing as nothing;
  an object prints as \<^verbatim>\<open>[object Object]\<close>, unless it has an own \<^verbatim>\<open>toString\<close>
  property, which as a JSON value cannot be called: the conversion then throws a
  TypeError.
\<close>

fun js_string :: "jsval \<Rightarrow> error + string" and
    js_join :: "jsval list \<Rightarrow> error + string" where
  "js_string JUndefined = Inr ''undefined''"
| "js_string JNull = Inr ''null''"
| "js_string (JBool b) = Inr (if b then ''true'' else ''false'')"
| "js_string (JNum n) = Inr (show_int n)"
| "js_string (JStr s) = Inr s"
| "js_string (JArr xs) = js_join xs"
| "js_string (JObj kvs) =
     (if map_of kvs ''toString'' = None then Inr ''[object Object]'' else Inl TypeError)"
| "js_join [] = Inr []"
| "js_join (x # xs) =
     (case (if x = JNull \<or> x = JUndefined then Inr [] else js_string x) of
        Inl e \<Rightarrow> Inl e
      | Inr s \<Rightarrow>
          if xs = [] then Inr s
          else (case js_join xs of Inl e \<Rightarrow> Inl e | Inr t \<Rightarrow> Inr (s @ '','' @ t)))"

text \<open>
  What \<^verbatim>\<open>JSON.stringify\<close> sends of a computed number and of the typed step
  structures; an infinite number is sent as \<^verbatim>\<open>null\<close>.
\<close>

definition json_of_number :: "number \<Rightarrow> jsval" where
  "json_of_number d = (case d of Finite n \<Rightarrow> JNum n | _ \<Rightarrow> JNull)"

fun json_of_StepSpec :: "StepSpec \<Rightarrow> jsval" where
  "json_of_StepSpec (StepSpec t ss) =
     JObj [(''title'', JStr t), (''steps'', JArr (map json_of_StepSpec ss))]"

definition json_of_AttachRef :: "AttachRef \<Rightarrow> jsval" where
  "json_of_AttachRef r = JObj [(''id'', ref_id r)]"

fun json_of_StepResult :: "StepResult \<Rightarrow> jsval" where
  "json_of_StepResult (StepResult t rs oc d ps as) =
     JObj [(''title'', JStr t),
           (''stepResults'', JArr (map json_of_StepResult rs)),
           (''outcome'', JStr oc),
           (''duration'', json_of_number d),
           (''parameters'', JObj (map (\<lambda>(k, v). (k, JStr v)) ps)),
           (''attachments'', JArr (map json_of_AttachRef as))]"

definition json_of_timestamp :: "string option \<Rightarrow> jsval" where
  "json_of_timestamp t = (case t of None \<Rightarrow> JNull | Some s \<Rightarrow> JStr s)"

definition json_of_optional :: "string option \<Rightarrow> jsval" where
  "json_of_optional x = (case x of None \<Rightarrow> JUndefined | Some s \<Rightarrow> JStr s)"

section \<open>The platform: file system, console and remote service\<close>

text \<open>
  What surrounds the program is a \<open>platform\<close>, which a run does not change: the two
  path functions, the file system (a path is missing, a file with its bytes, or a
  directory with its entries in the order \<^verbatim>\<open>readdirSync\<close> lists them), what
  \<^verbatim>\<open>JSON.parse\<close> makes of a file's text, and the remote service, which would answer
  a request given the exchanges so far. What a run does is its \<open>trace\<close>: the
  exchanges with the service and the lines written to the console, both in order.
\<close>

datatype fs_entry = File string | Directory "string list"

text \<open>
  \<^verbatim>\<open>JSON.parse\<close> throws, or returns a falsy value (which \<^verbatim>\<open>filter(Boolean)\<close> drops),
  or returns a value that the loader takes for an \<^verbatim>\<open>AllureResult\<close>.
\<close>

datatype parsed = ParseError | Falsy | Parsed AllureResult

datatype console_entry = Log string | Debug string | Warn string | Err string

datatype req_body = JsonBody jsval | FormFile string string string

record request =
  req_method :: string
  req_url :: string
  req_headers :: "(string \<times> string) list"
  req_body :: req_body

record response =
  resp_status :: nat
  resp_statusText :: string
  resp_url :: string
  resp_text :: string
  resp_json :: "jsval option"

datatype reply = NetworkFailure | Reply response

record platform =
  path_resolve :: "string \<Rightarrow> string"
  path_join :: "string \<Rightarrow> string \<Rightarrow> string"
  files :: "string \<Rightarrow> fs_entry option"
  json_parse :: "string \<Rightarrow> parsed"
  server :: "(request \<times> reply) list \<Rightarrow> request \<Rightarrow> reply"

record trace =
  exchanges :: "(request \<times> reply) list"
  console :: "console_entry list"

text \<open>
  A computation reads the platform, takes the trace and returns it with an error (a
  thrown exception, or the exit of the process) or a value. \<open>andThen\<close> is sequencing,
  \<^verbatim>\<open>await\<close> included: an error ends the computation and is the result.
\<close>

type_synonym 'a io = "platform \<Rightarrow> trace \<Rightarrow> (error + 'a) \<times> trace"

definition return :: "'a \<Rightarrow> 'a io" where
  "return x = (\<lambda>pf w. (Inr x, w))"

definition throw :: "error \<Rightarrow> 'a io" where
  "throw e = (\<lambda>pf w. (Inl e, w))"

definition lift :: "error + 'a \<Rightarrow> 'a io" where
  "lift r = (\<lambda>pf w. (r, w))"

definition andThen :: "'a io \<Rightarrow> ('a \<Rightarrow> 'b io) \<Rightarrow> 'b io" where
  "andThen m f =
     (\<lambda>pf w. case m pf w of (Inl e, w') \<Rightarrow> (Inl e, w') | (Inr x, w') \<Rightarrow> f x pf w')"

definition gets :: "(platform \<Rightarrow> 'a) \<Rightarrow> 'a io" where
  "gets f = (\<lambda>pf w. (Inr (f pf), w))"

definition print :: "console_entry \<Rightarrow> unit io" where
  "print line = (\<lambda>pf w. (Inr (), w\<lparr>console := console w @ [line]\<rparr>))"

text \<open>
  \<^verbatim>\<open>fetch\<close>. Line 1 is \<^verbatim>\<open>import { fetch } from 'node-fetch'\<close>, and the package that
  the installation instructions name (\<^verbatim>\<open>node-fetch@2\<close>) exports its function as the
  module itself and as \<^verbatim>\<open>default\<close>, under no name \<^verbatim>\<open>fetch\<close>: the imported binding is
  \<^verbatim>\<open>undefined\<close>. A call \<^verbatim>\<open>fetch(url, init)\<close> of lines 264 and 279 therefore evaluates
  its arguments and throws a \<^verbatim>\<open>TypeError\<close>; no request leaves the program and the
  service is never consulted, so a run leaves the exchanges as they were. (The
  variant of the script for Azure DevOps binds the name with
  \<^verbatim>\<open>require('node-fetch')\<close>, which is the function.)
\<close>

definition fetch :: "request \<Rightarrow> response io" where
  "fetch rq = throw TypeError"

text \<open>\<^verbatim>\<open>resp.ok\<close> and \<^verbatim>\<open>resp.json()\<close>\<close>

definition resp_ok :: "response \<Rightarrow> bool" where
  "resp_ok r = (200 \<le> resp_status r \<and> resp_status r \<le> 299)"

definition resp_json_body :: "response \<Rightarrow> jsval io" where
  "resp_json_body r = (case resp_json r of None \<Rightarrow> throw FetchError | Some v \<Rightarrow> return v)"

section \<open>Calls of the remote service\<close>

text \<open>\<^verbatim>\<open>apiAuthHeaders\<close>, lines 295-297.\<close>

definition apiAuthHeaders :: "Args \<Rightarrow> (string \<times> string) list" where
  "apiAuthHeaders args = [(''Authorization'', ''PrivateToken '' @ token args)]"

text \<open>\<^verbatim>\<open>apiEnsureStatus\<close>, lines 299-306.\<close>

definition apiEnsureStatus :: "response \<Rightarrow> unit io" where
  "apiEnsureStatus resp =
     (if \<not> resp_ok resp then
        andThen (print (Err (''API Error: '' @ show_nat (resp_status resp) @ '' ''
                             @ resp_statusText resp @ '' for '' @ resp_url resp))) (\<lambda>_.
        andThen (print (Err (resp_text resp))) (\<lambda>_.
        throw (Error (''API returned '' @ show_nat (resp_status resp)))))
      else return ())"

text \<open>
  \<^verbatim>\<open>invokeApi\<close>, lines 275-293. The request is built with the body as it is
  passed to \<^verbatim>\<open>invokeApi\<close>. What travels is \<^verbatim>\<open>JSON.stringify(body)\<close>, which leaves
  out the properties whose value is \<^verbatim>\<open>undefined\<close>.
\<close>

definition api_request :: "Args \<Rightarrow> string \<Rightarrow> string \<Rightarrow> jsval \<Rightarrow> request" where
  "api_request args method relUrl body =
     \<lparr>req_method = method, req_url = url args @ relUrl,
      req_headers = apiAuthHeaders args @ [(''Content-Type'', ''application/json'')],
      req_body = JsonBody body\<rparr>"

definition invokeApi :: "Args \<Rightarrow> string \<Rightarrow> string \<Rightarrow> jsval \<Rightarrow> jsval io" where
  "invokeApi args method relUrl body =
     andThen (print (Debug (''API call: '' @ method @ '' '' @ url args @ relUrl))) (\<lambda>_.
     andThen (fetch (api_request args method relUrl body)) (\<lambda>resp.
     andThen (apiEnsureStatus resp) (\<lambda>_.
     if resp_status resp = 204 then return JNull else resp_json_body resp)))"

text \<open>\<^verbatim>\<open>invokeApiAttachementUpload\<close>, lines 260-271.\<close>

definition upload_request :: "Args \<Rightarrow> string \<Rightarrow> string \<Rightarrow> string \<Rightarrow> request" where
  "upload_request args fname attachBuffer ctype =
     \<lparr>req_method = ''POST'', req_url = url args @ ''api/v2/attachments'',
      req_headers = apiAuthHeaders args,
      req_body = FormFile fname ctype attachBuffer\<rparr>"

definition invokeApiAttachementUpload :: "Args \<Rightarrow> string \<Rightarrow> string \<Rightarrow> string \<Rightarrow> jsval io" where
  "invokeApiAttachementUpload args fname attachBuffer ctype =
     andThen (fetch (upload_request args fname attachBuffer ctype)) (\<lambda>resp.
     andThen (apiEnsureStatus resp) (\<lambda>_.
     resp_json_body resp))"

section \<open>Attachments and steps\<close>

text \<open>
  \<^verbatim>\<open>uploadAllureAttachments\<close>, lines 236-258. The loop is a recursion over the
  descriptors; \<^verbatim>\<open>continue\<close> goes on with the rest. Reading a path that exists but is
  a directory rejects.
\<close>

fun uploadAllureAttachments :: "Args \<Rightarrow> Attachment list \<Rightarrow> AttachRef list io" where
  "uploadAllureAttachments args [] = return []"
| "uploadAllureAttachments args (attach # rest) =
     andThen (gets (\<lambda>pf. path_join pf (inputDir args) (source attach))) (\<lambda>filePath.
     andThen (gets (\<lambda>pf. files pf filePath)) (\<lambda>entry.
     case entry of
       None \<Rightarrow>
         andThen (print (Warn (''Attachment file not found: '' @ filePath))) (\<lambda>_.
         uploadAllureAttachments args rest)
     | Some (Directory names) \<Rightarrow> throw SystemError
     | Some (File attachBuffer) \<Rightarrow>
         if length attachBuffer = 0 then
           andThen (print (Warn (''Empty attachment: '' @ filePath))) (\<lambda>_.
           uploadAllureAttachments args rest)
         else
           andThen (print (Log (''Uploading attachment: '' @ source attach))) (\<lambda>_.
           andThen (invokeApiAttachementUpload args (source attach) attachBuffer
                      (contentType attach)) (\<lambda>resp.
           andThen (lift (get_prop resp ''id'')) (\<lambda>i.
           andThen (uploadAllureAttachments args rest) (\<lambda>attachRefs.
           return (AttachRef i # attachRefs)))))))"

text \<open>
  What the uploader finds for a descriptor: the file system's entry at the resolved
  path. A descriptor survives when that is a file of non-zero length; it is skipped
  when the path is missing or the file is empty, with one of two warnings.
\<close>

definition resolved :: "platform \<Rightarrow> Args \<Rightarrow> Attachment \<Rightarrow> fs_entry option" where
  "resolved pf args a = files pf (path_join pf (inputDir args) (source a))"

definition survives :: "platform \<Rightarrow> Args \<Rightarrow> Attachment \<Rightarrow> bool" where
  "survives pf args a =
     (case resolved pf args a of Some (File buf) \<Rightarrow> buf \<noteq> [] | _ \<Rightarrow> False)"

definition skipped :: "platform \<Rightarrow> Args \<Rightarrow> Attachment \<Rightarrow> bool" where
  "skipped pf args a = (resolved pf args a = None \<or> resolved pf args a = Some (File []))"

definition skip_warning :: "platform \<Rightarrow> Args \<Rightarrow> Attachment \<Rightarrow> console_entry" where
  "skip_warning pf args a =
     Warn ((if resolved pf args a = None then ''Attachment file not found: ''
            else ''Empty attachment: '') @ path_join pf (inputDir args) (source a))"

text \<open>
  \<^verbatim>\<open>processAllureSteps\<close>, lines 204-234. A step without a truthy name is passed
  over by \<^verbatim>\<open>continue\<close>; for the others the nested steps are translated first, then
  the step's attachments are uploaded, then the loop goes on.
\<close>

function processAllureSteps :: "Args \<Rightarrow> AllureStep list \<Rightarrow> (StepSpec list \<times> StepResult list) io" where
  "processAllureSteps args [] = return ([], [])"
| "processAllureSteps args (allureStep # rest) =
     (if \<not> truthy_string (step_name allureStep) then processAllureSteps args rest
      else
        andThen (processAllureSteps args (nullish (step_steps allureStep) [])) (\<lambda>(innerSpecs, innerResults).
        andThen (uploadAllureAttachments args (nullish (step_attachments allureStep) [])) (\<lambda>refs.
        let stepSpec = StepSpec (the (step_name allureStep)) innerSpecs;
            stepResult =
              StepResult (the (step_name allureStep)) innerResults
                (allureStatusToOutcome (step_status allureStep))
                (duration (step_start allureStep) (step_stop allureStep))
                (Object_fromEntries (nullish (step_parameters allureStep) []))
                refs
        in andThen (processAllureSteps args rest) (\<lambda>(stepSpecs, stepResults).
           return (stepSpec # stepSpecs, stepResult # stepResults)))))"
  by pat_completeness auto

lemma size_nested_steps:
  "size_list size (nullish (step_steps s) []) \<le> size s"
  by (cases s) (auto simp: nullish_def split: option.splits)

termination processAllureSteps
  by (relation "measure (\<lambda>(args, xs). size_list size xs)")
     (simp_all add: trans_le_add1 [OF size_nested_steps] less_Suc_eq_le)

text \<open>
  A step is named when its name is truthy. \<open>shape\<close> is the structure of a step result:
  its title and, recursively, the shapes of its children.
\<close>

definition named :: "AllureStep \<Rightarrow> bool" where
  "named s = truthy_string (step_name s)"

fun shape :: "StepResult \<Rightarrow> StepSpec" where
  "shape (StepResult t rs oc d ps as) = StepSpec t (map shape rs)"

section \<open>Loading the result files\<close>

text \<open>
  The callback of \<^verbatim>\<open>map\<close> in \<^verbatim>\<open>loadAllureResults\<close>, lines 316-325: a file that
  cannot be read or parsed is reported on the console and becomes \<^verbatim>\<open>null\<close>.
\<close>

definition readResultFile :: "string \<Rightarrow> string \<Rightarrow> parsed io" where
  "readResultFile dir fileName =
     andThen (gets (\<lambda>pf. path_join pf dir fileName)) (\<lambda>filePath.
     andThen (gets (\<lambda>pf. case files pf filePath of
                             Some (File fileContent) \<Rightarrow> json_parse pf fileContent
                           | _ \<Rightarrow> ParseError)) (\<lambda>p.
     case p of
       ParseError \<Rightarrow>
         andThen (print (Err (''Error parsing file '' @ filePath @ '':''))) (\<lambda>_.
         return ParseError)
     | _ \<Rightarrow> return p))"

fun readResultFiles :: "string \<Rightarrow> string list \<Rightarrow> parsed list io" where
  "readResultFiles dir [] = return []"
| "readResultFiles dir (fileName # rest) =
     andThen (readResultFile dir fileName) (\<lambda>p.
     andThen (readResultFiles dir rest) (\<lambda>ps.
     return (p # ps)))"

text \<open>\<^verbatim>\<open>filter(Boolean)\<close>: only the parsed records stay.\<close>

fun truthy_results :: "parsed list \<Rightarrow> AllureResult list" where
  "truthy_results [] = []"
| "truthy_results (Parsed r # ps) = r # truthy_results ps"
| "truthy_results (p # ps) = truthy_results ps"

text \<open>
  The sort key of line 332, \<^verbatim>\<open>it.start ?? 0\<close>. \<^verbatim>\<open>Array.prototype.sort\<close> is stable,
  and so is \<open>sort_key\<close>: with the comparison by the difference of the keys it gives the
  same array.
\<close>

definition start_key :: "AllureResult \<Rightarrow> int" where
  "start_key it = nullish (start it) 0"

record Loaded =
  results :: "(string \<times> AllureResult) list"

text \<open>
  \<^verbatim>\<open>loadAllureResults\<close>, lines 308-336. \<^verbatim>\<open>readdirSync\<close> on a path that is a file
  throws.
\<close>

definition loadAllureResults :: "string \<Rightarrow> Loaded io" where
  "loadAllureResults dir =
     andThen (gets (\<lambda>pf. files pf dir)) (\<lambda>entry.
     case entry of
       None \<Rightarrow> throw (Error (''Directory not found: '' @ dir))
     | Some (File content) \<Rightarrow> throw SystemError
     | Some (Directory dirEntries) \<Rightarrow>
         andThen (readResultFiles dir (filter (\<lambda>n. endsWith n ''-result.json'') dirEntries))
           (\<lambda>ps.
         let resultFiles = truthy_results ps in
         if length resultFiles = 0
         then throw (Error (''No Allure result files found in '' @ dir))
         else
           let sorted = sort_key start_key resultFiles
           in return \<lparr>results = Object_fromEntries (map (\<lambda>it. (historyId it, it)) sorted)\<rparr>))"

text \<open>
  The records a directory holds, in the order of enumeration: the parsed contents of
  its entries named \<^verbatim>\<open>*-result.json\<close>.
\<close>

definition result_files :: "platform \<Rightarrow> string \<Rightarrow> string list \<Rightarrow> AllureResult list" where
  "result_files pf dir dirEntries =
     concat (map (\<lambda>n. case files pf (path_join pf dir n) of
                         Some (File c) \<Rightarrow> (case json_parse pf c of Parsed r \<Rightarrow> [r] | _ \<Rightarrow> [])
                       | _ \<Rightarrow> [])
                 (filter (\<lambda>n. endsWith n ''-result.json'') dirEntries))"

text \<open>
  The record that wins a \<^verbatim>\<open>historyId\<close> among the records of a directory, in the
  words of the specification: it has that \<^verbatim>\<open>historyId\<close>, no record with that
  \<^verbatim>\<open>historyId\<close> has a greater sort key, and among those with the same sort key it
  is the last one enumerated.
\<close>

definition is_winner :: "string \<Rightarrow> AllureResult \<Rightarrow> AllureResult list \<Rightarrow> bool" where
  "is_winner h r rs =
     (let cands = filter (\<lambda>x. historyId x = h) rs
      in r \<in> set cands
         \<and> (\<forall>c\<in>set cands. start_key c \<le> start_key r)
         \<and> last (filter (\<lambda>c. start_key c = start_key r) cands) = r)"

section \<open>The import\<close>

text \<open>\<^verbatim>\<open>parseArgs\<close>, lines 72-89, on \<^verbatim>\<open>process.argv.slice(2)\<close>.\<close>

definition parseArgs :: "string list \<Rightarrow> Args io" where
  "parseArgs argv =
     (if length argv < 6 then
        andThen (print (Err ''Usage: ts-node allure2testit-cli.ts <inputDir> <url> <token> <projectId> <configurationId> <testRunName>'')) (\<lambda>_.
        andThen (print (Err ''Example:'')) (\<lambda>_.
        andThen (print (Err (''ts-node allure2testit-cli.ts ./allure-results https://testit.example/ myPrivateToken 123e4567-e89b-12d3-a456-426614174000 987e6543-e21b-43d3-b456-426614174000 '' @ [CHR 0x22] @ ''Test Run 1'' @ [CHR 0x22]))) (\<lambda>_.
        throw (ProcessExit 1))))
      else
        andThen (gets (\<lambda>pf. path_resolve pf (argv ! 0))) (\<lambda>dir.
        return \<lparr>inputDir = dir,
                url = normalizeUrl (argv ! 1),
                token = argv ! 2,
                projectId = argv ! 3,
                configurationId = argv ! 4,
                testRunName = argv ! 5\<rparr>))"

text \<open>
  \<^verbatim>\<open>existingTestRun.find(run => run.name === args.testRunName)\<close>, line 110. Only an
  array has \<^verbatim>\<open>find\<close>; on any other JSON value the call throws a TypeError.
\<close>

fun find_named :: "string \<Rightarrow> jsval list \<Rightarrow> error + jsval" where
  "find_named n [] = Inr JUndefined"
| "find_named n (run # rest) =
     (case get_prop run ''name'' of
        Inl e \<Rightarrow> Inl e
      | Inr v \<Rightarrow> if v = JStr n then Inr run else find_named n rest)"

definition find_run :: "string \<Rightarrow> jsval \<Rightarrow> error + jsval" where
  "find_run n v = (case v of JArr xs \<Rightarrow> find_named n xs | _ \<Rightarrow> Inl TypeError)"

text \<open>Lines 102-124 of \<^verbatim>\<open>runImport\<close>: the test run is found or created.\<close>

definition resolveTestRun :: "Args \<Rightarrow> jsval io" where
  "resolveTestRun args =
     andThen (invokeApi args ''POST'' ''api/v2/testRuns/search''
                (JObj [(''projectId'', JStr (projectId args)),
                       (''name'', JStr (testRunName args))])) (\<lambda>existingTestRun.
     andThen (lift (find_run (testRunName args) existingTestRun)) (\<lambda>matchingTestRun.
     if truthy matchingTestRun then
       andThen (lift (get_prop matchingTestRun ''id'')) (\<lambda>testRunId.
       andThen (lift (js_string testRunId)) (\<lambda>shown.
       andThen (print (Log (''Using existing test run with ID: '' @ shown))) (\<lambda>_.
       return testRunId)))
     else
       andThen (print (Log ''Creating new test run'')) (\<lambda>_.
       andThen (invokeApi args ''POST'' ''api/v2/testRuns''
                  (JObj [(''projectId'', JStr (projectId args)),
                         (''name'', JStr (testRunName args))])) (\<lambda>testRunResp.
       andThen (lift (get_prop testRunResp ''id'')) (\<lambda>testRunId.
       andThen (lift (js_string testRunId)) (\<lambda>shown.
       andThen (print (Log (''Created test run with ID: '' @ shown))) (\<lambda>_.
       return testRunId)))))))"

text \<open>
  \<^verbatim>\<open>autotestData\<close>, lines 142-149, as the list of its properties. A label that is
  absent leaves \<^verbatim>\<open>classname\<close> or \<^verbatim>\<open>namespace\<close> \<^verbatim>\<open>undefined\<close>.
\<close>

definition autotestData :: "Args \<Rightarrow> AllureResult \<Rightarrow> StepSpec list \<Rightarrow> (string \<times> jsval) list" where
  "autotestData args testResult stepSpecs =
     (let labelObj = Object_fromEntries (nullish (labels testResult) [])
      in [(''externalId'', JStr (historyId testResult)),
          (''projectId'', JStr (projectId args)),
          (''name'', JStr (name testResult)),
          (''steps'', JArr (map json_of_StepSpec stepSpecs)),
          (''classname'', json_of_optional (map_of labelObj ''testClass'')),
          (''namespace'', json_of_optional (map_of labelObj ''package''))])"

text \<open>The two request bodies of lines 154-157 and 162-170.\<close>

definition updateBody :: "jsval \<Rightarrow> Args \<Rightarrow> AllureResult \<Rightarrow> StepSpec list \<Rightarrow> jsval" where
  "updateBody i args testResult stepSpecs =
     JObj ((''id'', i) # autotestData args testResult stepSpecs)"

definition createBody ::
  "Args \<Rightarrow> AllureResult \<Rightarrow> StepSpec list \<Rightarrow> StepResult list \<Rightarrow> string option \<Rightarrow> string option \<Rightarrow> jsval" where
  "createBody args testResult stepSpecs stepResults startedOn completedOn =
     JObj ((''configurationId'', JStr (configurationId args))
           # autotestData args testResult stepSpecs
           @ [(''duration'', json_of_number (duration (start testResult) (stop testResult))),
              (''startedOn'', json_of_timestamp startedOn),
              (''completedOn'', json_of_timestamp completedOn),
              (''outcome'', JStr (allureStatusToOutcome (status testResult))),
              (''stepResults'', JArr (map json_of_StepResult stepResults))])"

text \<open>
  Lines 151-172 of \<^verbatim>\<open>runImport\<close>: the autotest is updated when the search found
  one, and created otherwise.
\<close>

definition upsertAutotest ::
  "Args \<Rightarrow> AllureResult \<Rightarrow> jsval \<Rightarrow> StepSpec list \<Rightarrow> StepResult list \<Rightarrow> jsval io" where
  "upsertAutotest args testResult autotestMatches stepSpecs stepResults =
     andThen (lift (get_prop autotestMatches ''length'')) (\<lambda>len.
     if truthy len then
       andThen (lift (get_prop autotestMatches ''0'')) (\<lambda>first.
       andThen (lift (get_prop first ''id'')) (\<lambda>i.
       andThen (lift (js_string i)) (\<lambda>shown.
       andThen (print (Log (''Updating existing autotest (ID: '' @ shown @ '')''))) (\<lambda>_.
       invokeApi args ''PUT'' ''api/v2/autoTests'' (updateBody i args testResult stepSpecs)))))
     else
       andThen (print (Log ''Creating new autotest'')) (\<lambda>_.
       andThen (lift (convertAllureTimestamp (start testResult))) (\<lambda>startedOn.
       andThen (lift (convertAllureTimestamp (stop testResult))) (\<lambda>completedOn.
       invokeApi args ''POST'' ''api/v2/autoTests''
         (createBody args testResult stepSpecs stepResults startedOn completedOn)))))"

text \<open>The fields of execution and outcome, which only the create request carries.\<close>

definition outcome_fields :: "string set" where
  "outcome_fields =
     {''configurationId'', ''duration'', ''startedOn'', ''completedOn'', ''outcome'',
      ''stepResults''}"

text \<open>Lines 174-188 of \<^verbatim>\<open>runImport\<close>: the result is added to the test run.\<close>

definition appendTestResult :: "Args \<Rightarrow> jsval \<Rightarrow> AllureResult \<Rightarrow> StepResult list \<Rightarrow> jsval io" where
  "appendTestResult args testRunId testResult stepResults =
     andThen (print (Log ''Adding test result to test run'')) (\<lambda>_.
     andThen (lift (js_string testRunId)) (\<lambda>shown.
     andThen (lift (convertAllureTimestamp (start testResult))) (\<lambda>startedOn.
     andThen (lift (convertAllureTimestamp (stop testResult))) (\<lambda>completedOn.
     andThen (uploadAllureAttachments args (nullish (attachments testResult) [])) (\<lambda>refs.
     invokeApi args ''POST'' (''api/v2/testRuns/'' @ shown @ ''/testResults'')
       (JArr [JObj [(''configurationId'', JStr (configurationId args)),
                    (''autoTestExternalId'', JStr (historyId testResult)),
                    (''duration'', json_of_number (duration (start testResult) (stop testResult))),
                    (''startedOn'', json_of_timestamp startedOn),
                    (''completedOn'', json_of_timestamp completedOn),
                    (''outcome'', JStr (allureStatusToOutcome (status testResult))),
                    (''stepResults'', JArr (map json_of_StepResult stepResults)),
                    (''attachments'', JArr (map json_of_AttachRef refs)),
                    (''message'', JStr (message (statusDetails testResult))),
                    (''trace'', JStr (trace (statusDetails testResult)))]]))))))"

text \<open>The body of the loop of \<^verbatim>\<open>runImport\<close>, lines 127-188, for one record.\<close>

definition importTestResult :: "Args \<Rightarrow> jsval \<Rightarrow> nat \<Rightarrow> nat \<Rightarrow> AllureResult \<Rightarrow> unit io" where
  "importTestResult args testRunId len index testResult =
     andThen (print (Log ([CHR 0x0A] @ ''Processing test '' @ show_nat (index + 1) @ ''/''
                          @ show_nat len @ '': '' @ name testResult))) (\<lambda>_.
     andThen (invokeApi args ''POST'' ''api/v2/autoTests/search''
                (JObj [(''filter'',
                        JObj [(''isDeleted'', JBool False),
                              (''projectIds'', JArr [JStr (projectId args)]),
                              (''externalIds'', JArr [JStr (historyId testResult)])])]))
       (\<lambda>autotestMatches.
     andThen (processAllureSteps args (nullish (steps testResult) [])) (\<lambda>(stepSpecs, stepResults).
     andThen (upsertAutotest args testResult autotestMatches stepSpecs stepResults) (\<lambda>_.
     andThen (appendTestResult args testRunId testResult stepResults) (\<lambda>_.
     return ())))))"

text \<open>The loop of line 126 over \<^verbatim>\<open>Object.values(loaded.results)\<close>.\<close>

fun importAll :: "Args \<Rightarrow> jsval \<Rightarrow> nat \<Rightarrow> nat \<Rightarrow> AllureResult list \<Rightarrow> unit io" where
  "importAll args testRunId len index [] = return ()"
| "importAll args testRunId len index (testResult # rest) =
     andThen (importTestResult args testRunId len index testResult) (\<lambda>_.
     importAll args testRunId len (index + 1) rest)"

text \<open>\<^verbatim>\<open>runImport\<close>, lines 91-190.\<close>

definition runImport :: "Args \<Rightarrow> unit io" where
  "runImport args =
     andThen (print (Log ''Starting import with parameters:'')) (\<lambda>_.
     andThen (print (Log (''- Input directory: '' @ inputDir args))) (\<lambda>_.
     andThen (print (Log (''- TestIT URL: '' @ url args))) (\<lambda>_.
     andThen (print (Log (''- Project ID: '' @ projectId args))) (\<lambda>_.
     andThen (print (Log (''- Configuration ID: '' @ configurationId args))) (\<lambda>_.
     andThen (print (Log (''- Test Run Name: '' @ testRunName args))) (\<lambda>_.
     andThen (loadAllureResults (inputDir args)) (\<lambda>loaded.
     andThen (print (Log (''Found '' @ show_nat (length (Object_keys (results loaded)))
                          @ '' test results''))) (\<lambda>_.
     andThen (resolveTestRun args) (\<lambda>testRunId.
     importAll args testRunId (length (Object_keys (results loaded))) 0
       (Object_values (results loaded)))))))))))"

text \<open>
  \<^verbatim>\<open>main\<close>, lines 60-70, gives the exit code of the process: 0 after a complete
  import, 1 when anything was thrown (and what \<^verbatim>\<open>process.exit\<close> was called with in
  \<^verbatim>\<open>parseArgs\<close>).
\<close>

definition main :: "string list \<Rightarrow> platform \<Rightarrow> trace \<Rightarrow> nat \<times> trace" where
  "main argv pf w =
     (case andThen (parseArgs argv) runImport pf w of
        (Inr u, w') \<Rightarrow> (0, w'\<lparr>console := console w' @ [Log ''Import completed successfully'']\<rparr>)
      | (Inl (ProcessExit code), w') \<Rightarrow> (code, w')
      | (Inl e, w') \<Rightarrow> (1, w'\<lparr>console := console w' @ [Err ''Error:'']\<rparr>))"

section \<open>Runs without a request\<close>

text \<open>
  A computation sends nothing when no run of it changes the exchanges with the
  service.
\<close>

definition sends_nothing :: "'a io \<Rightarrow> bool" where
  "sends_nothing m = (\<forall>pf w. exchanges (snd (m pf w)) = exchanges w)"

section \<open>A small installation\<close>

text \<open>
  A directory, a service and some records, on which the theorems below are
  instantiated. The service would answer a search with an empty array and every
  other request with an object whose \<^verbatim>\<open>id\<close> is the number of earlier exchanges.
  Of the files that attachments name, \<^verbatim>\<open>shot.png\<close> and \<^verbatim>\<open>trace.txt\<close> have
  content, \<^verbatim>\<open>empty.log\<close> is empty and \<^verbatim>\<open>gone.bin\<close> does not exist.
\<close>

definition demo_args :: Args where
  "demo_args =
     \<lparr>inputDir = ''/r'', url = ''https://t/'', token = ''k'', projectId = ''p'',
      configurationId = ''c'', testRunName = ''nightly''\<rparr>"

definition demo_step :: AllureStep where
  "demo_step =
     AllureStep (Some ''Step 1'')
       (Some [AllureStep None None (Some [\<lparr>source = ''shot.png'', contentType = ''image/png''\<rparr>])
                None None None None,
              AllureStep (Some ''Inner'') None None None (Some ''skipped'') None None])
       (Some [\<lparr>source = ''gone.bin'', contentType = ''application/octet-stream''\<rparr>])
       (Some [(''browser'', ''ff''), (''browser'', ''chrome'')])
       (Some ''passed'') (Some 1000) (Some 1500)"

definition demo_steps :: "AllureStep list" where
  "demo_steps =
     [demo_step,
      AllureStep (Some []) (Some [demo_step])
        (Some [\<lparr>source = ''trace.txt'', contentType = ''text/plain''\<rparr>]) None None None None,
      AllureStep None None None None None None None,
      AllureStep (Some ''Step 2'') None
        (Some [\<lparr>source = ''empty.log'', contentType = ''text/plain''\<rparr>]) None (Some ''broken'')
        None None]"

definition demo_attachments :: "Attachment list" where
  "demo_attachments =
     [\<lparr>source = ''gone.bin'', contentType = ''application/octet-stream''\<rparr>,
      \<lparr>source = ''empty.log'', contentType = ''text/plain''\<rparr>,
      \<lparr>source = ''shot.png'', contentType = ''image/png''\<rparr>,
      \<lparr>source = ''trace.txt'', contentType = ''text/plain''\<rparr>]"

definition demo_result :: "string \<Rightarrow> string \<Rightarrow> int option \<Rightarrow> AllureResult" where
  "demo_result h n t =
     \<lparr>historyId = h, name = n, steps = None, labels = Some [(''package'', ''pkg'')],
      start = t, stop = Some 5000, status = Some ''passed'', attachments = None,
      statusDetails = \<lparr>message = [], trace = []\<rparr>\<rparr>"

definition demo_entries :: "string list" where
  "demo_entries =
     [''b-result.json'', ''a-result.json'', ''notes.txt'', ''c-result.json'',
      ''bad-result.json'', ''d-result.json'']"

definition demo_files :: "string \<Rightarrow> fs_entry option" where
  "demo_files =
     map_of [(''/r'', Directory demo_entries),
             (''/r/a-result.json'', File ''A''),
             (''/r/b-result.json'', File ''B''),
             (''/r/c-result.json'', File ''C''),
             (''/r/d-result.json'', File ''D''),
             (''/r/bad-result.json'', File ''{''),
             (''/r/shot.png'', File ''PNG''),
             (''/r/empty.log'', File []),
             (''/r/trace.txt'', File ''T'')]"

definition demo_parse :: "string \<Rightarrow> parsed" where
  "demo_parse text =
     (if text = ''A'' then Parsed (demo_result ''h1'' ''Test A'' (Some 1000))
      else if text = ''B'' then Parsed (demo_result ''h1'' ''Test B'' (Some 3000))
      else if text = ''C'' then Parsed (demo_result ''h2'' ''Test C'' None)
      else if text = ''D'' then Parsed (demo_result ''h2'' ''Test D'' (Some 0))
      else ParseError)"

definition demo_reply :: "nat \<Rightarrow> request \<Rightarrow> nat \<Rightarrow> reply" where
  "demo_reply code rq n =
     Reply \<lparr>resp_status = code, resp_statusText = [], resp_url = req_url rq, resp_text = [],
            resp_json = Some (if endsWith (req_url rq) ''search'' then JArr []
                              else JObj [(''id'', JNum (int n))])\<rparr>"

definition demo_platform :: platform where
  "demo_platform =
     \<lparr>path_resolve = (\<lambda>p. p), path_join = (\<lambda>d n. d @ ''/'' @ n), files = demo_files,
      json_parse = demo_parse, server = (\<lambda>h rq. demo_reply 200 rq (length h))\<rparr>"


definition empty_trace :: trace where
  "empty_trace = \<lparr>exchanges = [], console = []\<rparr>"

definition demo_translated :: trace where
  "demo_translated = snd (processAllureSteps demo_args demo_steps demo_platform empty_trace)"

definition demo_loaded :: "(error + Loaded) \<times> trace" where
  "demo_loaded = loadAllureResults ''/r'' demo_platform empty_trace"

definition demo_argv :: "string list" where
  "demo_argv = [''/r'', ''https://t'', ''k'', ''p'', ''c'', ''nightly'']"




section \<open>Properties of the pure helpers\<close>

lemma show_nat_digit: "n < 10 \<Longrightarrow> show_nat n = [''0123456789'' ! n]"
  by (subst show_nat.simps) simp

lemma show_nat_more:
  "\<not> n < 10 \<Longrightarrow> show_nat n = show_nat (n div 10) @ [''0123456789'' ! (n mod 10)]"
  by (subst show_nat.simps) simp

lemma replicate_numeral: "replicate (numeral k) x = x # replicate (pred_numeral k) x"
  by (simp add: numeral_eq_Suc)

lemmas show_simps = show_int_def pad_def show_nat_digit show_nat_more replicate_numeral

lemma endsWith_append_self: "endsWith (u @ t) t"
  by (simp add: endsWith_def)

text \<open>
  C2. For every status, a string or \<^verbatim>\<open>undefined\<close>, \<^verbatim>\<open>allureStatusToOutcome\<close> returns
  one of Blocked, Passed, Skipped and Failed, by the fixed table: \<^verbatim>\<open>undefined\<close> gives
  Blocked, "passed" gives Passed, "skipped" gives Skipped, and every other string
  (such as "failed", "broken" or an unknown one) gives Failed.
\<close>

theorem allureStatusToOutcome_table:
  "allureStatusToOutcome st \<in> {''Blocked'', ''Passed'', ''Skipped'', ''Failed''}
   \<and> allureStatusToOutcome None = ''Blocked''
   \<and> allureStatusToOutcome (Some ''passed'') = ''Passed''
   \<and> allureStatusToOutcome (Some ''skipped'') = ''Skipped''
   \<and> allureStatusToOutcome (Some ''failed'') = ''Failed''
   \<and> allureStatusToOutcome (Some ''broken'') = ''Failed''
   \<and> (s \<noteq> ''passed'' \<longrightarrow> s \<noteq> ''skipped'' \<longrightarrow> allureStatusToOutcome (Some s) = ''Failed'')"
  by (simp add: allureStatusToOutcome_def)

theorem allureStatusToOutcome_table_witness:
  "''weird-string'' \<noteq> ''passed'' \<and> ''weird-string'' \<noteq> ''skipped''
   \<and> allureStatusToOutcome (Some ''weird-string'') = ''Failed''"
  using allureStatusToOutcome_table [of None "''weird-string''"] by simp

text \<open>
  C9. The empty string is a defined status, although falsy: \<^verbatim>\<open>allureStatusToOutcome\<close>
  gives Failed for it, not Blocked.
\<close>

theorem allureStatusToOutcome_empty_string:
  "allureStatusToOutcome (Some []) = ''Failed'' \<and> allureStatusToOutcome (Some []) \<noteq> ''Blocked''"
  by (simp add: allureStatusToOutcome_def)

lemma bit_length_0 [simp]: "bit_length 0 = 0"
  by (simp add: bit_length.simps)

lemma bit_length_pos: "0 < n \<Longrightarrow> bit_length n = Suc (bit_length (n div 2))"
  by (subst bit_length.simps) simp

lemma bit_length_numeral [simp]:
  "bit_length (numeral (Num.Bit0 k)) = Suc (bit_length (numeral k))"
  "bit_length (numeral (Num.Bit1 k)) = Suc (bit_length (numeral k))"
  "bit_length 1 = 1"
  by (simp_all add: bit_length_pos numeral_Bit0_div_2 numeral_Bit1_div_2)

lemma bit_length_Suc_0 [simp]: "bit_length (Suc 0) = 1"
  by (simp add: bit_length_pos)















text \<open>
  C8, as the code has it. \<^verbatim>\<open>convertAllureTimestamp\<close> maps a present, non-zero
  epoch-millisecond value within the range of an ECMAScript date (at most 8.64e15
  milliseconds from the epoch on either side) to its ISO-8601 timestamp string, and
  maps 0 and \<^verbatim>\<open>undefined\<close> to null, never to the timestamp string of the epoch. For a
  value beyond that range the conversion throws a RangeError instead of returning.
\<close>

theorem convertAllureTimestamp_spec:
  "(v \<noteq> 0 \<longrightarrow> - 8640000000000000 \<le> v \<longrightarrow> v \<le> 8640000000000000 \<longrightarrow>
      (\<exists>s. toISOString v = Inr s \<and> convertAllureTimestamp (Some v) = Inr (Some s)))
   \<and> convertAllureTimestamp (Some 0) = Inr None
   \<and> convertAllureTimestamp None = Inr None
   \<and> (v < - 8640000000000000 \<or> 8640000000000000 < v \<longrightarrow>
        convertAllureTimestamp (Some v) = Inl RangeError)"
  by (auto simp: convertAllureTimestamp_def truthy_number_def toISOString_def Let_def
           split: prod.splits)

theorem convertAllureTimestamp_spec_witness:
  "(1500::int) \<noteq> 0 \<and> - 8640000000000000 \<le> (1500::int) \<and> (1500::int) \<le> 8640000000000000
   \<and> toISOString 1500 = Inr ''1970-01-01T00:00:01.500Z''
   \<and> convertAllureTimestamp (Some 1500) = Inr (Some ''1970-01-01T00:00:01.500Z'')
   \<and> (8640000000000000::int) < 8640000000000001
   \<and> convertAllureTimestamp (Some 8640000000000001) = Inl RangeError"
proof -
  have iso: "toISOString 1500 = Inr ''1970-01-01T00:00:01.500Z''"
    unfolding toISOString_def civil_def Let_def show_year_def
    by (simp add: show_simps)
  from convertAllureTimestamp_spec [of 1500] convertAllureTimestamp_spec [of 8640000000000001] iso
  show ?thesis
    by simp
qed

text \<open>
  For every timestamp input the statement fails: at the first millisecond beyond the
  range of a date, the non-zero value 8640000000000001 is mapped neither to a timestamp
  string nor to null, the conversion throws.
\<close>

theorem convertAllureTimestamp_out_of_range:
  "convertAllureTimestamp (Some 8640000000000001) = Inl RangeError"
  by (simp add: convertAllureTimestamp_def truthy_number_def toISOString_def)

section \<open>Computations\<close>

lemma run_simps [simp]:
  "return x pf w = (Inr x, w)"
  "throw e pf w = (Inl e, w)"
  "lift r pf w = (r, w)"
  "gets f pf w = (Inr (f pf), w)"
  "print line pf w = (Inr (), w\<lparr>console := console w @ [line]\<rparr>)"
  by (simp_all add: return_def throw_def lift_def gets_def print_def)

lemma andThen_run:
  "andThen m f pf w = (case m pf w of (Inl e, w') \<Rightarrow> (Inl e, w') | (Inr x, w') \<Rightarrow> f x pf w')"
  by (simp add: andThen_def)

lemma andThen_Inr_iff:
  "andThen m f pf w = (Inr y, w') \<longleftrightarrow> (\<exists>x w1. m pf w = (Inr x, w1) \<and> f x pf w1 = (Inr y, w'))"
  by (auto simp: andThen_def split: prod.splits sum.splits)

lemma andThen_print [simp]:
  "andThen (print line) f pf w = f () pf (w\<lparr>console := console w @ [line]\<rparr>)"
  by (simp add: andThen_def)

lemma andThen_gets [simp]: "andThen (gets g) f pf w = f (g pf) pf w"
  by (simp add: andThen_def)

lemma andThen_return [simp]: "andThen (return x) f pf w = f x pf w"
  by (simp add: andThen_def)

lemma andThen_throw [simp]: "andThen (throw e) f pf w = (Inl e, w)"
  by (simp add: andThen_def)

lemma andThen_lift [simp]:
  "andThen (lift r) f pf w = (case r of Inl e \<Rightarrow> (Inl e, w) | Inr x \<Rightarrow> f x pf w)"
  by (simp add: andThen_def split: sum.splits)

text \<open>
  What \<^verbatim>\<open>apiEnsureStatus\<close> does with a response: nothing for a status from 200 to
  299, and otherwise two lines on the console and the error \<^verbatim>\<open>API returned\<close> with
  the status.
\<close>

lemma apiEnsureStatus_run:
  "apiEnsureStatus r pf w =
     (if resp_ok r then (Inr (), w)
      else (Inl (Error (''API returned '' @ show_nat (resp_status r))),
            w\<lparr>console := console w
                 @ [Err (''API Error: '' @ show_nat (resp_status r) @ '' '' @ resp_statusText r
                         @ '' for '' @ resp_url r),
                    Err (resp_text r)]\<rparr>))"
  by (simp add: apiEnsureStatus_def)

text \<open>
  No response reaches it. Every call of \<^verbatim>\<open>fetch\<close> throws, so \<^verbatim>\<open>invokeApi\<close> throws
  after its line on the console and \<^verbatim>\<open>invokeApiAttachementUpload\<close> throws at once,
  whatever the service would answer.
\<close>

lemma fetch_run: "fetch rq pf w = (Inl TypeError, w)"
  by (simp add: fetch_def)

lemma invokeApi_run:
  "invokeApi args verb relUrl body pf w =
     (Inl TypeError,
      w\<lparr>console := console w @ [Debug (''API call: '' @ verb @ '' '' @ url args @ relUrl)]\<rparr>)"
  by (simp add: invokeApi_def fetch_def)

lemma invokeApiAttachementUpload_run:
  "invokeApiAttachementUpload args n b c pf w = (Inl TypeError, w)"
  by (simp add: invokeApiAttachementUpload_def fetch_def)

section \<open>The URL of the service\<close>

text \<open>
  C10. The URL normalisation of \<^verbatim>\<open>parseArgs\<close> always gives a string that ends in
  \<^verbatim>\<open>/\<close>, and it is idempotent: normalising a normalised URL changes nothing. The
  \<^verbatim>\<open>url\<close> of the arguments \<^verbatim>\<open>parseArgs\<close> returns is the normalised second
  argument.
\<close>

theorem normalizeUrl_idempotent:
  "endsWith (normalizeUrl u) ''/''
   \<and> normalizeUrl (normalizeUrl u) = normalizeUrl u
   \<and> (parseArgs argv pf w = (Inr a, w') \<longrightarrow>
        url a = normalizeUrl (argv ! 1) \<and> endsWith (url a) ''/''
        \<and> normalizeUrl (url a) = url a)"
proof -
  have ends: "endsWith (normalizeUrl v) ''/''" for v
    by (simp add: normalizeUrl_def endsWith_append_self)
  have idem: "normalizeUrl (normalizeUrl v) = normalizeUrl v" for v
    by (simp add: normalizeUrl_def endsWith_append_self)
  have "url a = normalizeUrl (argv ! 1)" if "parseArgs argv pf w = (Inr a, w')"
    using that by (auto simp: parseArgs_def split: if_splits)
  with ends idem show ?thesis
    by simp
qed

theorem normalizeUrl_idempotent_witness:
  "parseArgs demo_argv demo_platform empty_trace = (Inr demo_args, empty_trace)
   \<and> demo_argv ! 1 = ''https://t''
   \<and> url demo_args = ''https://t/''
   \<and> normalizeUrl ''https://t'' = ''https://t/''
   \<and> normalizeUrl ''https://t/'' = ''https://t/''"
proof -
  have run: "parseArgs demo_argv demo_platform empty_trace = (Inr demo_args, empty_trace)"
    by (simp add: parseArgs_def demo_argv_def demo_args_def demo_platform_def normalizeUrl_def
                  endsWith_def)
  have arg: "demo_argv ! 1 = ''https://t''"
    by (simp add: demo_argv_def)
  have u: "url demo_args = ''https://t/''"
    by (simp add: demo_args_def)
  from normalizeUrl_idempotent
         [of "''https://t''" demo_argv demo_platform empty_trace demo_args empty_trace] run
  have "url demo_args = normalizeUrl (demo_argv ! 1)"
    and "normalizeUrl (url demo_args) = url demo_args"
    by blast+
  with run arg u show ?thesis
    by simp
qed

section \<open>Attachments\<close>

lemmas demo_defs = demo_args_def demo_platform_def demo_files_def demo_entries_def
  demo_parse_def demo_reply_def
  empty_trace_def demo_attachments_def demo_steps_def demo_step_def demo_result_def

lemmas call_defs = andThen_run invokeApiAttachementUpload_def invokeApi_def fetch_def
  upload_request_def api_request_def apiEnsureStatus_def resp_ok_def resp_json_body_def
  endsWith_def apiAuthHeaders_def

text \<open>
  A list of descriptors whose files are all missing or empty is processed to the end:
  one warning each, in order, and no reference.
\<close>

lemma upload_skipped:
  "list_all (skipped pf args) atts \<Longrightarrow>
     uploadAllureAttachments args atts pf w
       = (Inr [], w\<lparr>console := console w @ map (skip_warning pf args) atts\<rparr>)"
proof (induction atts arbitrary: w)
  case Nil
  show ?case by simp
next
  case (Cons a atts)
  from Cons.prems have a: "skipped pf args a" and rest: "list_all (skipped pf args) atts"
    by simp_all
  from a show ?case
    by (auto simp: skipped_def resolved_def skip_warning_def Cons.IH [OF rest])
qed

text \<open>
  A descriptor whose file has content ends the run: its upload is announced and
  throws, and the descriptors after it are not looked at.
\<close>

lemma upload_survivor:
  "survives pf args a \<Longrightarrow>
     uploadAllureAttachments args (a # rest) pf w
       = (Inl TypeError,
          w\<lparr>console := console w @ [Log (''Uploading attachment: '' @ source a)]\<rparr>)"
  by (auto simp: survives_def resolved_def invokeApiAttachementUpload_run andThen_run
           split: option.splits fs_entry.splits)

text \<open>So the uploader returns only when it had nothing to upload, and then no reference.\<close>

lemma upload_Inr:
  "uploadAllureAttachments args atts pf w = (Inr refs, w') \<Longrightarrow>
     refs = [] \<and> list_all (skipped pf args) atts"
proof (induction atts arbitrary: w)
  case Nil
  then show ?case by simp
next
  case (Cons a atts)
  show ?case
  proof (cases "resolved pf args a")
    case None
    with Cons.prems have
      "uploadAllureAttachments args atts pf
         (w\<lparr>console := console w @ [skip_warning pf args a]\<rparr>) = (Inr refs, w')"
      by (simp add: resolved_def skip_warning_def)
    from Cons.IH [OF this] None show ?thesis
      by (simp add: skipped_def)
  next
    case (Some e)
    show ?thesis
    proof (cases e)
      case (Directory names)
      with Some Cons.prems show ?thesis
        by (simp add: resolved_def)
    next
      case (File buf)
      show ?thesis
      proof (cases "buf = []")
        case True
        with File Some Cons.prems have
          "uploadAllureAttachments args atts pf
             (w\<lparr>console := console w @ [skip_warning pf args a]\<rparr>) = (Inr refs, w')"
          by (simp add: resolved_def skip_warning_def)
        from Cons.IH [OF this] File Some True show ?thesis
          by (simp add: skipped_def)
      next
        case False
        with File Some have "survives pf args a"
          by (simp add: survives_def)
        from upload_survivor [OF this] Cons.prems show ?thesis
          by simp
      qed
    qed
  qed
qed

text \<open>
  C4 has one reference returned for each descriptor whose resolved file exists with a
  non-zero length, in the order of the descriptors, the others being skipped with a
  warning. As the program is written, no run returns a reference. Of the four
  descriptors of the installation two have such a file, \<^verbatim>\<open>shot.png\<close> and
  \<^verbatim>\<open>trace.txt\<close>; the run writes the warnings for the missing and the empty file
  before them, announces the upload of \<^verbatim>\<open>shot.png\<close> and ends there with a
  \<^verbatim>\<open>TypeError\<close>: nothing is sent, no reference is returned, and \<^verbatim>\<open>trace.txt\<close> is not
  reached.
\<close>

theorem uploadAllureAttachments_throws:
  "filter (survives demo_platform demo_args) demo_attachments
     = [\<lparr>source = ''shot.png'', contentType = ''image/png''\<rparr>,
        \<lparr>source = ''trace.txt'', contentType = ''text/plain''\<rparr>]
   \<and> uploadAllureAttachments demo_args demo_attachments demo_platform empty_trace
       = (Inl TypeError,
          \<lparr>exchanges = [],
           console = [Warn ''Attachment file not found: /r/gone.bin'',
                      Warn ''Empty attachment: /r/empty.log'',
                      Log ''Uploading attachment: shot.png'']\<rparr>)"
  by (simp add: demo_defs survives_def resolved_def invokeApiAttachementUpload_run andThen_run)

section \<open>Steps\<close>

lemma process_filter:
  "processAllureSteps args ss = processAllureSteps args (filter named ss)"
proof (induction ss)
  case Nil
  show ?case by simp
next
  case (Cons s ss)
  show ?case
  proof (cases "named s")
    case True
    then have "truthy_string (step_name s)" by (simp add: named_def)
    with True show ?thesis
      by (simp add: Cons.IH [symmetric])
  next
    case False
    then have "\<not> truthy_string (step_name s)" by (simp add: named_def)
    with False show ?thesis
      using Cons.IH by simp
  qed
qed

lemma process_titles:
  "processAllureSteps args ss pf w = (Inr (specs, stepRs), w') \<Longrightarrow>
     map spec_title specs = map (\<lambda>s. the (step_name s)) (filter named ss)"
proof (induction ss arbitrary: w specs stepRs w')
  case Nil
  then show ?case by simp
next
  case (Cons s ss)
  show ?case
  proof (cases "named s")
    case False
    with Cons.prems have "processAllureSteps args ss pf w = (Inr (specs, stepRs), w')"
      by (simp add: named_def)
    from Cons.IH [OF this] False show ?thesis by simp
  next
    case True
    with Cons.prems obtain w1 specs' results' innerSpecs where
      "processAllureSteps args ss pf w1 = (Inr (specs', results'), w')"
      "specs = StepSpec (the (step_name s)) innerSpecs # specs'"
      by (auto simp: named_def andThen_Inr_iff Let_def)
    with Cons.IH [of w1 specs' results'] True show ?thesis by simp
  qed
qed

lemma process_shape:
  "processAllureSteps args ss pf w = (Inr (specs, stepRs), w') \<Longrightarrow> map shape stepRs = specs"
proof (induction args ss arbitrary: w specs stepRs w' rule: processAllureSteps.induct)
  case (1 args)
  then show ?case by simp
next
  case (2 args s rest)
  show ?case
  proof (cases "named s")
    case False
    with "2.prems" have "processAllureSteps args rest pf w = (Inr (specs, stepRs), w')"
      by (simp add: named_def)
    with "2.IH"(1) False show ?thesis by (simp add: named_def)
  next
    case True
    with "2.prems" obtain w0 w1 specs' results' innerSpecs innerResults refs where
      inner: "processAllureSteps args (nullish (step_steps s) []) pf w = (Inr (innerSpecs, innerResults), w0)"
      and rest: "processAllureSteps args rest pf w1 = (Inr (specs', results'), w')"
      and specs: "specs = StepSpec (the (step_name s)) innerSpecs # specs'"
      and stepRs: "stepRs = StepResult (the (step_name s)) innerResults
                (allureStatusToOutcome (step_status s))
                (duration (step_start s) (step_stop s))
                (Object_fromEntries (nullish (step_parameters s) []))
                refs # results'"
      by (auto simp: named_def andThen_Inr_iff Let_def)
    from True "2.IH"(2) inner have "map shape innerResults = innerSpecs"
      by (simp add: named_def)
    moreover from True "2.IH"(3) rest have "map shape results' = specs'"
      by (simp add: named_def)
    ultimately show ?thesis using specs stepRs by simp
  qed
qed


text \<open>
  C1. When \<^verbatim>\<open>processAllureSteps\<close> returns, the step specs and the step results
  are two sequences of the same length with the same titles in the same order (the
  results have the shape of the specs at every depth), and the titles are the names of
  the steps with a truthy name, in input order. A step with an empty or absent name
  has no entry; it does not matter what it contains, since the translation behaves on
  the list as on the list without such steps, in its result and in everything it does.
  A list of such steps alone gives two empty sequences and leaves the trace as it was:
  nothing of them is visited or uploaded.
\<close>

theorem processAllureSteps_named_steps:
  "(processAllureSteps args ss pf w = (Inr (specs, stepRs), w') \<longrightarrow>
      length specs = length stepRs
      \<and> map sr_title stepRs = map spec_title specs
      \<and> map shape stepRs = specs
      \<and> map spec_title specs = map (\<lambda>s. the (step_name s)) (filter named ss)
      \<and> length specs = length (filter named ss))
   \<and> processAllureSteps args ss = processAllureSteps args (filter named ss)
   \<and> ((\<forall>s\<in>set ss. \<not> named s) \<longrightarrow> processAllureSteps args ss pf w = (Inr ([], []), w))"
proof (intro conjI impI)
  assume run: "processAllureSteps args ss pf w = (Inr (specs, stepRs), w')"
  from process_shape [OF run] show sh: "map shape stepRs = specs" .
  then show "length specs = length stepRs"
    by (metis length_map)
  have "spec_title (shape r) = sr_title r" for r
    by (cases r) simp
  with sh show "map sr_title stepRs = map spec_title specs"
    by (auto simp: comp_def)
  from process_titles [OF run]
  show ti: "map spec_title specs = map (\<lambda>s. the (step_name s)) (filter named ss)" .
  then show "length specs = length (filter named ss)"
    by (metis length_map)
next
  show "processAllureSteps args ss = processAllureSteps args (filter named ss)"
    by (rule process_filter)
next
  assume "\<forall>s\<in>set ss. \<not> named s"
  then have "filter named ss = []"
    by (simp add: filter_empty_conv)
  with process_filter [of args ss]
  show "processAllureSteps args ss pf w = (Inr ([], []), w)"
    by simp
qed

theorem processAllureSteps_named_steps_witness:
  "processAllureSteps demo_args demo_steps demo_platform empty_trace
     = (Inr ([StepSpec ''Step 1'' [StepSpec ''Inner'' []], StepSpec ''Step 2'' []],
             [StepResult ''Step 1'' [StepResult ''Inner'' [] ''Skipped'' (Finite 0) [] []] ''Passed''
                (Finite 500)
                [(''browser'', ''chrome'')] [],
              StepResult ''Step 2'' [] ''Failed'' (Finite 0) [] []]),
        demo_translated)
   \<and> length demo_steps = 4
   \<and> map (\<lambda>s. the (step_name s)) (filter named demo_steps) = [''Step 1'', ''Step 2'']
   \<and> demo_translated
       = \<lparr>exchanges = [],
          console = [Warn ''Attachment file not found: /r/gone.bin'',
                     Warn ''Empty attachment: /r/empty.log'']\<rparr>
   \<and> list_all (\<lambda>s. \<not> named s) (drop 1 (take 3 demo_steps))
   \<and> processAllureSteps demo_args (drop 1 (take 3 demo_steps)) demo_platform empty_trace
       = (Inr ([], []), empty_trace)"
proof -
  let ?specs = "[StepSpec ''Step 1'' [StepSpec ''Inner'' []], StepSpec ''Step 2'' []]"
  let ?stepRs = "[StepResult ''Step 1'' [StepResult ''Inner'' [] ''Skipped'' (Finite 0) [] []] ''Passed''
                (Finite 500)
                [(''browser'', ''chrome'')] [],
              StepResult ''Step 2'' [] ''Failed'' (Finite 0) [] []]"
  have val: "fst (processAllureSteps demo_args demo_steps demo_platform empty_trace)
      = Inr (?specs, ?stepRs)"
    by (simp add: demo_defs call_defs truthy_string_def nullish_def allureStatusToOutcome_def
                  duration_def number_minus_def round_double_def truthy_number_def
                  Object_fromEntries_def)
  have run: "processAllureSteps demo_args demo_steps demo_platform empty_trace
     = (Inr (?specs, ?stepRs), demo_translated)"
    unfolding demo_translated_def by (rule prod_eqI) (simp_all add: val)
  have quiet: "demo_translated
       = \<lparr>exchanges = [],
          console = [Warn ''Attachment file not found: /r/gone.bin'',
                     Warn ''Empty attachment: /r/empty.log'']\<rparr>"
    unfolding demo_translated_def
    by (simp add: demo_defs call_defs truthy_string_def nullish_def allureStatusToOutcome_def
                  duration_def number_minus_def round_double_def truthy_number_def
                  Object_fromEntries_def)
  have unnamed: "\<forall>s\<in>set (drop 1 (take 3 demo_steps)). \<not> named s"
    by (simp add: demo_steps_def named_def truthy_string_def)
  have len: "length demo_steps = 4"
    by (simp add: demo_steps_def)
  from processAllureSteps_named_steps
         [of demo_args demo_steps demo_platform empty_trace ?specs ?stepRs demo_translated] run
  have titles: "map (\<lambda>s. the (step_name s)) (filter named demo_steps) = [''Step 1'', ''Step 2'']"
    by simp
  from processAllureSteps_named_steps
         [of demo_args "drop 1 (take 3 demo_steps)" demo_platform empty_trace] unnamed
  have none: "processAllureSteps demo_args (drop 1 (take 3 demo_steps)) demo_platform empty_trace
       = (Inr ([], []), empty_trace)"
    by blast
  from run len titles quiet unnamed none show ?thesis
    by (simp add: list_all_iff)
qed

section \<open>Loading\<close>

lemma map_of_set_prop: "map_of (set_prop obj k v) = (map_of obj)(k \<mapsto> v)"
  by (induction obj k v rule: set_prop.induct) (auto simp: fun_eq_iff)

lemma keys_set_prop: "fst ` set (set_prop obj k v) = insert k (fst ` set obj)"
  by (induction obj k v rule: set_prop.induct) auto

lemma distinct_set_prop:
  "distinct (map fst obj) \<Longrightarrow> distinct (map fst (set_prop obj k v))"
  by (induction obj k v rule: set_prop.induct) (auto simp: keys_set_prop)

lemma foldl_set_prop:
  "distinct (map fst acc) \<Longrightarrow>
     distinct (map fst (foldl (\<lambda>obj (k, v). set_prop obj k v) acc es))
     \<and> map_of (foldl (\<lambda>obj (k, v). set_prop obj k v) acc es) = map_of acc ++ map_of (rev es)"
proof (induction es arbitrary: acc)
  case Nil
  then show ?case by simp
next
  case (Cons e es)
  obtain k v where e: "e = (k, v)" by (cases e)
  from Cons.prems have "distinct (map fst (set_prop acc k v))"
    by (rule distinct_set_prop)
  from Cons.IH [OF this] show ?case
    by (simp add: e map_of_set_prop map_add_upd_left fun_eq_iff map_add_def split: option.splits)
qed

lemma Object_fromEntries_distinct: "distinct (map fst (Object_fromEntries es))"
  using foldl_set_prop [of "[]" es] by (simp add: Object_fromEntries_def)

lemma Object_fromEntries_lookup: "map_of (Object_fromEntries es) = map_of (rev es)"
  using foldl_set_prop [of "[]" es] by (simp add: Object_fromEntries_def)

lemma map_of_rev_keyed:
  "map_of (rev (map (\<lambda>x. (g x, x)) xs)) k =
     (if filter (\<lambda>x. g x = k) xs = [] then None else Some (last (filter (\<lambda>x. g x = k) xs)))"
  by (induction xs rule: rev_induct) auto

lemma sorted_le_last: "sorted xs \<Longrightarrow> x \<in> set xs \<Longrightarrow> x \<le> last xs"
  for xs :: "int list"
  by (induction xs) auto

lemma last_filter_keep: "xs \<noteq> [] \<Longrightarrow> P (last xs) \<Longrightarrow> last (filter P xs) = last xs"
  by (induction xs rule: rev_induct) auto

lemma last_sort_key:
  fixes f :: "'a \<Rightarrow> int"
  assumes "xs \<noteq> []"
  shows "last (sort_key f xs) \<in> set xs"
    and "\<forall>c\<in>set xs. f c \<le> f (last (sort_key f xs))"
    and "last (filter (\<lambda>c. f c = f (last (sort_key f xs))) xs) = last (sort_key f xs)"
proof -
  let ?ys = "sort_key f xs"
  from assms have ne: "?ys \<noteq> []"
    by (metis length_0_conv length_sort)
  then have "last ?ys \<in> set ?ys" by (rule last_in_set)
  then show "last ?ys \<in> set xs" by simp
  have "sorted (map f ?ys)" by (rule sorted_sort_key)
  then have "\<forall>y\<in>set (map f ?ys). y \<le> last (map f ?ys)"
    using sorted_le_last by blast
  with ne show "\<forall>c\<in>set xs. f c \<le> f (last ?ys)"
    by (simp add: last_map)
  have "filter (\<lambda>c. f c = f (last ?ys)) xs = filter (\<lambda>c. f c = f (last ?ys)) ?ys"
    by (simp add: sort_key_stable)
  also from ne have "last \<dots> = last ?ys"
    by (simp add: last_filter_keep)
  finally show "last (filter (\<lambda>c. f c = f (last ?ys)) xs) = last ?ys" .
qed

lemma winner_unique:
  fixes f :: "'a \<Rightarrow> int"
  assumes "r \<in> set xs" "\<forall>c\<in>set xs. f c \<le> f r" "last (filter (\<lambda>c. f c = f r) xs) = r"
  shows "r = last (sort_key f xs)"
proof -
  from assms(1) have ne: "xs \<noteq> []" by auto
  let ?r0 = "last (sort_key f xs)"
  from last_sort_key(1,2) [OF ne, of f] assms(1,2) have eq: "f ?r0 = f r"
    by (meson order_antisym)
  have "?r0 = last (filter (\<lambda>c. f c = f ?r0) xs)"
    using last_sort_key(3) [OF ne, of f] by (rule sym)
  also have "\<dots> = last (filter (\<lambda>c. f c = f r) xs)"
    by (simp only: eq)
  also have "\<dots> = r"
    by (rule assms(3))
  finally show ?thesis
    by (rule sym)
qed


lemma readResultFile_run:
  "\<exists>w'. readResultFile dir n pf w =
     (Inr (case files pf (path_join pf dir n) of
             Some (File c) \<Rightarrow> json_parse pf c
           | _ \<Rightarrow> ParseError), w')"
  by (auto simp: readResultFile_def split: option.splits fs_entry.splits parsed.splits)

lemma readResultFiles_run:
  "\<exists>w'. readResultFiles dir ns pf w =
     (Inr (map (\<lambda>n. case files pf (path_join pf dir n) of
                       Some (File c) \<Rightarrow> json_parse pf c
                     | _ \<Rightarrow> ParseError) ns), w')"
proof (induction ns arbitrary: w)
  case Nil
  show ?case by simp
next
  case (Cons n ns)
  obtain w1 where "readResultFile dir n pf w =
     (Inr (case files pf (path_join pf dir n) of
             Some (File c) \<Rightarrow> json_parse pf c
           | _ \<Rightarrow> ParseError), w1)"
    using readResultFile_run by blast
  moreover obtain w2 where "readResultFiles dir ns pf w1 =
     (Inr (map (\<lambda>n. case files pf (path_join pf dir n) of
                       Some (File c) \<Rightarrow> json_parse pf c
                     | _ \<Rightarrow> ParseError) ns), w2)"
    using Cons.IH by blast
  ultimately show ?case
    by (simp add: andThen_run)
qed

lemma truthy_results_map:
  "truthy_results (map g ns) = concat (map (\<lambda>n. case g n of Parsed r \<Rightarrow> [r] | _ \<Rightarrow> []) ns)"
  by (induction ns) (auto split: parsed.splits)

lemma truthy_results_files:
  "truthy_results (map (\<lambda>n. case files pf (path_join pf dir n) of
                       Some (File c) \<Rightarrow> json_parse pf c
                     | _ \<Rightarrow> ParseError) (filter (\<lambda>n. endsWith n ''-result.json'') es))
   = result_files pf dir es"
  unfolding result_files_def truthy_results_map
  by (rule arg_cong [where f = concat], rule map_cong)
     (auto split: option.splits fs_entry.splits parsed.splits)

lemma loadAllureResults_Inr:
  assumes "loadAllureResults dir pf w = (Inr loaded, w')"
  obtains es where "files pf dir = Some (Directory es)"
    and "result_files pf dir es \<noteq> []"
    and "results loaded =
           Object_fromEntries (map (\<lambda>it. (historyId it, it))
                                   (sort_key start_key (result_files pf dir es)))"
proof (cases "files pf dir")
  case None
  with assms show ?thesis by (simp add: loadAllureResults_def)
next
  case (Some e)
  show ?thesis
  proof (cases e)
    case (File c)
    with Some assms show ?thesis by (simp add: loadAllureResults_def)
  next
    case (Directory es)
    obtain w1 where rd: "readResultFiles dir (filter (\<lambda>n. endsWith n ''-result.json'') es) pf w =
       (Inr (map (\<lambda>n. case files pf (path_join pf dir n) of
                       Some (File c) \<Rightarrow> json_parse pf c
                     | _ \<Rightarrow> ParseError) (filter (\<lambda>n. endsWith n ''-result.json'') es)), w1)"
      using readResultFiles_run by blast
    from assms Some Directory have
      "result_files pf dir es \<noteq> [] \<and> results loaded =
           Object_fromEntries (map (\<lambda>it. (historyId it, it))
                                   (sort_key start_key (result_files pf dir es)))"
      by (auto simp: loadAllureResults_def andThen_run rd truthy_results_files Let_def
               split: if_splits)
    with Some Directory that show ?thesis by blast
  qed
qed

lemma sort_key_Nil_iff: "sort_key f xs = [] \<longleftrightarrow> xs = []"
  by (metis length_0_conv length_sort)

lemma lookup_is_winner:
  "map_of (Object_fromEntries (map (\<lambda>it. (historyId it, it)) (sort_key start_key rs))) h = Some r
   \<longleftrightarrow> is_winner h r rs"
proof -
  let ?c = "filter (\<lambda>x. historyId x = h) rs"
  have look: "map_of (Object_fromEntries (map (\<lambda>it. (historyId it, it)) (sort_key start_key rs))) h
      = (if ?c = [] then None else Some (last (sort_key start_key ?c)))"
    by (simp add: Object_fromEntries_lookup map_of_rev_keyed filter_sort sort_key_Nil_iff)
  show ?thesis
  proof (cases "?c = []")
    case True
    then show ?thesis
      by (simp add: look is_winner_def)
  next
    case False
    from last_sort_key [OF False, of start_key] winner_unique [of r ?c start_key] False
    show ?thesis
      unfolding look is_winner_def Let_def by auto
  qed
qed


lemma lookup_defined:
  "(\<exists>r. map_of (Object_fromEntries (map (\<lambda>it. (historyId it, it)) (sort_key start_key rs))) h
          = Some r)
   \<longleftrightarrow> (\<exists>x\<in>set rs. historyId x = h)"
  by (auto simp: Object_fromEntries_lookup map_of_rev_keyed filter_sort sort_key_Nil_iff
                 filter_empty_conv)

text \<open>
  C3. When \<^verbatim>\<open>loadAllureResults\<close> returns, the mapping has one record for each
  \<^verbatim>\<open>historyId\<close> that occurs among the parsed result files of the directory and for
  no other key, and that record is the winner: the one that comes last when the files
  are sorted by ascending \<^verbatim>\<open>start\<close> (an absent \<^verbatim>\<open>start\<close> counting as 0) with ties
  left in the order of enumeration.
\<close>

theorem loadAllureResults_last_wins:
  "loadAllureResults dir pf w = (Inr loaded, w') \<Longrightarrow>
     \<exists>es. files pf dir = Some (Directory es)
       \<and> distinct (map fst (results loaded))
       \<and> (\<forall>h r. map_of (results loaded) h = Some r \<longleftrightarrow> is_winner h r (result_files pf dir es))
       \<and> (\<forall>h. (\<exists>r. map_of (results loaded) h = Some r)
                \<longleftrightarrow> (\<exists>x\<in>set (result_files pf dir es). historyId x = h))"
proof -
  assume "loadAllureResults dir pf w = (Inr loaded, w')"
  then obtain es where es: "files pf dir = Some (Directory es)"
    and res: "results loaded =
           Object_fromEntries (map (\<lambda>it. (historyId it, it))
                                   (sort_key start_key (result_files pf dir es)))"
    by (rule loadAllureResults_Inr)
  have "distinct (map fst (results loaded))"
    unfolding res by (rule Object_fromEntries_distinct)
  moreover have "\<forall>h r. map_of (results loaded) h = Some r
                   \<longleftrightarrow> is_winner h r (result_files pf dir es)"
    unfolding res by (simp add: lookup_is_winner)
  moreover have "\<forall>h. (\<exists>r. map_of (results loaded) h = Some r)
                \<longleftrightarrow> (\<exists>x\<in>set (result_files pf dir es). historyId x = h)"
    unfolding res by (simp add: lookup_defined)
  ultimately show ?thesis
    using es by blast
qed

theorem loadAllureResults_last_wins_witness:
  "demo_loaded
     = (Inr \<lparr>results = [(''h2'', demo_result ''h2'' ''Test D'' (Some 0)),
                         (''h1'', demo_result ''h1'' ''Test B'' (Some 3000))]\<rparr>,
        snd demo_loaded)
   \<and> files demo_platform ''/r'' = Some (Directory demo_entries)
   \<and> result_files demo_platform ''/r'' demo_entries
       = [demo_result ''h1'' ''Test B'' (Some 3000), demo_result ''h1'' ''Test A'' (Some 1000),
          demo_result ''h2'' ''Test C'' None, demo_result ''h2'' ''Test D'' (Some 0)]
   \<and> is_winner ''h1'' (demo_result ''h1'' ''Test B'' (Some 3000))
         (result_files demo_platform ''/r'' demo_entries)
   \<and> is_winner ''h2'' (demo_result ''h2'' ''Test D'' (Some 0))
         (result_files demo_platform ''/r'' demo_entries)"
proof -
  let ?L = "\<lparr>results = [(''h2'', demo_result ''h2'' ''Test D'' (Some 0)),
                        (''h1'', demo_result ''h1'' ''Test B'' (Some 3000))]\<rparr>"
  have val: "fst demo_loaded = Inr ?L"
    by (simp add: demo_loaded_def loadAllureResults_def readResultFile_def demo_defs andThen_run
                  endsWith_def start_key_def nullish_def Object_fromEntries_def)
  have run: "loadAllureResults ''/r'' demo_platform empty_trace = (Inr ?L, snd demo_loaded)"
    unfolding demo_loaded_def [symmetric] by (rule prod_eqI) (simp_all add: val)
  have dir: "files demo_platform ''/r'' = Some (Directory demo_entries)"
    by (simp add: demo_platform_def demo_files_def)
  have rf: "result_files demo_platform ''/r'' demo_entries
       = [demo_result ''h1'' ''Test B'' (Some 3000), demo_result ''h1'' ''Test A'' (Some 1000),
          demo_result ''h2'' ''Test C'' None, demo_result ''h2'' ''Test D'' (Some 0)]"
    by (simp add: result_files_def demo_platform_def demo_files_def demo_entries_def
                  demo_parse_def endsWith_def)
  from loadAllureResults_last_wins [OF run] dir
  have win: "map_of (results ?L) h = Some r
               \<longleftrightarrow> is_winner h r (result_files demo_platform ''/r'' demo_entries)" for h r
    by auto
  have "is_winner ''h1'' (demo_result ''h1'' ''Test B'' (Some 3000))
         (result_files demo_platform ''/r'' demo_entries)"
    using win [of "''h1''" "demo_result ''h1'' ''Test B'' (Some 3000)"] by simp
  moreover have "is_winner ''h2'' (demo_result ''h2'' ''Test D'' (Some 0))
         (result_files demo_platform ''/r'' demo_entries)"
    using win [of "''h2''" "demo_result ''h2'' ''Test D'' (Some 0)"] by simp
  ultimately show ?thesis
    using run dir rf by (simp add: demo_loaded_def)
qed

section \<open>No request leaves the program\<close>

text \<open>
  Nothing but \<^verbatim>\<open>fetch\<close> touches the exchanges with the service, and \<^verbatim>\<open>fetch\<close>
  throws: every part of the program sends nothing.
\<close>

lemma quiet_return: "sends_nothing (return x)"
  by (simp add: sends_nothing_def)

lemma quiet_throw: "sends_nothing (throw e)"
  by (simp add: sends_nothing_def)

lemma quiet_lift: "sends_nothing (lift r)"
  by (simp add: sends_nothing_def)

lemma quiet_gets: "sends_nothing (gets f)"
  by (simp add: sends_nothing_def)

lemma quiet_print: "sends_nothing (print line)"
  by (simp add: sends_nothing_def)

lemma quiet_andThen:
  assumes m: "sends_nothing m" and f: "\<And>x. sends_nothing (f x)"
  shows "sends_nothing (andThen m f)"
  unfolding sends_nothing_def
proof (intro allI)
  fix pf w
  obtain r1 w1 where m1: "m pf w = (r1, w1)"
    by (cases "m pf w")
  from m have "exchanges (snd (m pf w)) = exchanges w"
    unfolding sends_nothing_def by blast
  with m1 have e1: "exchanges w1 = exchanges w"
    by simp
  show "exchanges (snd (andThen m f pf w)) = exchanges w"
  proof (cases r1)
    case (Inl e)
    with m1 e1 show ?thesis
      by (simp add: andThen_def)
  next
    case (Inr x)
    from f [of x] have "exchanges (snd (f x pf w1)) = exchanges w1"
      unfolding sends_nothing_def by blast
    with m1 Inr e1 show ?thesis
      by (simp add: andThen_def)
  qed
qed

lemma quiet_invokeApi: "sends_nothing (invokeApi args verb relUrl body)"
  by (simp add: sends_nothing_def invokeApi_run)

lemma quiet_invokeApiAttachementUpload:
  "sends_nothing (invokeApiAttachementUpload args n b c)"
  by (simp add: sends_nothing_def invokeApiAttachementUpload_run)

lemma quiet_if:
  "(c \<Longrightarrow> sends_nothing p) \<Longrightarrow> (\<not> c \<Longrightarrow> sends_nothing q) \<Longrightarrow> sends_nothing (if c then p else q)"
  by simp

lemma quiet_case_prod:
  "(\<And>a b. sends_nothing (f a b)) \<Longrightarrow> sends_nothing (case x of (a, b) \<Rightarrow> f a b)"
  by (cases x) simp

lemma quiet_case_option:
  "sends_nothing p \<Longrightarrow> (\<And>x. sends_nothing (q x)) \<Longrightarrow>
     sends_nothing (case v of None \<Rightarrow> p | Some x \<Rightarrow> q x)"
  by (cases v) simp_all

lemma quiet_case_fs_entry:
  "(\<And>c. sends_nothing (p c)) \<Longrightarrow> (\<And>ns. sends_nothing (q ns)) \<Longrightarrow>
     sends_nothing (case e of File c \<Rightarrow> p c | Directory ns \<Rightarrow> q ns)"
  by (cases e) simp_all

lemma quiet_case_parsed:
  "sends_nothing p \<Longrightarrow> sends_nothing q \<Longrightarrow> (\<And>r. sends_nothing (f r)) \<Longrightarrow>
     sends_nothing (case v of ParseError \<Rightarrow> p | Falsy \<Rightarrow> q | Parsed r \<Rightarrow> f r)"
  by (cases v) simp_all

lemma quiet_Let: "sends_nothing (f x) \<Longrightarrow> sends_nothing (Let x f)"
  by simp

lemmas quiet_rules = quiet_return quiet_throw quiet_lift quiet_gets quiet_print quiet_andThen
  quiet_if quiet_case_prod quiet_case_option quiet_case_fs_entry quiet_case_parsed quiet_Let
  quiet_invokeApi quiet_invokeApiAttachementUpload

lemma quiet_uploadAllureAttachments:
  "sends_nothing (uploadAllureAttachments args atts)"
proof (induction atts)
  case Nil
  show ?case
    unfolding uploadAllureAttachments.simps by (rule quiet_return)
next
  case (Cons a atts)
  show ?case
    unfolding uploadAllureAttachments.simps by (intro quiet_rules Cons.IH)
qed

lemma quiet_processAllureSteps:
  "sends_nothing (processAllureSteps args ss)"
proof (induction args ss rule: processAllureSteps.induct)
  case (1 args)
  show ?case
    unfolding processAllureSteps.simps by (rule quiet_return)
next
  case (2 args s rest)
  show ?case
    unfolding processAllureSteps.simps
    by (intro quiet_rules quiet_uploadAllureAttachments "2.IH") simp_all
qed

lemma quiet_readResultFile: "sends_nothing (readResultFile dir n)"
  unfolding readResultFile_def by (intro quiet_rules)

lemma quiet_readResultFiles: "sends_nothing (readResultFiles dir ns)"
proof (induction ns)
  case Nil
  show ?case
    unfolding readResultFiles.simps by (rule quiet_return)
next
  case (Cons n ns)
  show ?case
    unfolding readResultFiles.simps by (intro quiet_rules quiet_readResultFile Cons.IH)
qed

lemma quiet_loadAllureResults: "sends_nothing (loadAllureResults dir)"
  unfolding loadAllureResults_def by (intro quiet_rules quiet_readResultFiles)

lemma quiet_parseArgs: "sends_nothing (parseArgs argv)"
  unfolding parseArgs_def by (intro quiet_rules)

lemma quiet_resolveTestRun: "sends_nothing (resolveTestRun args)"
  unfolding resolveTestRun_def by (intro quiet_rules)

lemma quiet_upsertAutotest:
  "sends_nothing (upsertAutotest args tr ms specs rs)"
  unfolding upsertAutotest_def by (intro quiet_rules)

lemma quiet_appendTestResult:
  "sends_nothing (appendTestResult args rid tr rs)"
  unfolding appendTestResult_def by (intro quiet_rules quiet_uploadAllureAttachments)

lemma quiet_importTestResult:
  "sends_nothing (importTestResult args rid n i tr)"
  unfolding importTestResult_def
  by (intro quiet_rules quiet_processAllureSteps quiet_upsertAutotest quiet_appendTestResult)

lemma quiet_importAll: "sends_nothing (importAll args rid n i trs)"
proof (induction trs arbitrary: i)
  case Nil
  show ?case
    unfolding importAll.simps by (rule quiet_return)
next
  case (Cons tr trs)
  show ?case
    unfolding importAll.simps by (intro quiet_rules quiet_importTestResult Cons.IH)
qed

lemma quiet_runImport: "sends_nothing (runImport args)"
  unfolding runImport_def
  by (intro quiet_rules quiet_loadAllureResults quiet_resolveTestRun quiet_importAll)

text \<open>
  The import comes to its first call, the search for the test run, only when the
  result files were loaded, and ends there: no run of \<^verbatim>\<open>runImport\<close> completes, and
  none sends a request.
\<close>

lemma resolveTestRun_run:
  "resolveTestRun args pf w =
     (Inl TypeError,
      w\<lparr>console := console w
           @ [Debug (''API call: POST '' @ url args @ ''api/v2/testRuns/search'')]\<rparr>)"
  by (simp add: resolveTestRun_def andThen_run invokeApi_run)

lemma andThen_fails:
  "(\<And>x v. \<exists>e. fst (f x pf v) = Inl e) \<Longrightarrow> \<exists>e. fst (andThen m f pf w) = Inl e"
  by (cases "m pf w") (auto simp: andThen_def split: sum.splits)

lemma runImport_never_completes:
  "(\<exists>e. fst (runImport args pf w) = Inl e)
   \<and> exchanges (snd (runImport args pf w)) = exchanges w"
proof
  show "\<exists>e. fst (runImport args pf w) = Inl e"
    unfolding runImport_def
    apply simp
    apply (rule andThen_fails)
    apply (simp add: andThen_run resolveTestRun_run)
    done
  from quiet_runImport [of args] show "exchanges (snd (runImport args pf w)) = exchanges w"
    unfolding sends_nothing_def by blast
qed

section \<open>Update and create\<close>

lemmas import_defs = runImport_def loadAllureResults_def readResultFile_def resolveTestRun_def
  find_run_def importTestResult_def upsertAutotest_def appendTestResult_def
  Object_values_def Object_entries_def Object_keys_def array_index_def digit_of_def
  nullish_def start_key_def Object_fromEntries_def parseArgs_def normalizeUrl_def main_def
  truthy_string_def truthy_number_def


text \<open>
  The two bodies that the import builds for the autotest. The body of the update has
  the internal id and the six fields of the definition with their values, and none of
  the fields of execution and outcome; the body of the create has the configuration,
  the same six fields, and the five fields of the outcome, none of them
  \<^verbatim>\<open>undefined\<close>.
\<close>

lemma updateBody_fields:
  "\<exists>kvs. updateBody i args tr specs = JObj kvs
     \<and> map fst kvs = [''id'', ''externalId'', ''projectId'', ''name'', ''steps'', ''classname'',
                      ''namespace'']
     \<and> map_of kvs ''id'' = Some i
     \<and> map_of kvs ''externalId'' = Some (JStr (historyId tr))
     \<and> map_of kvs ''projectId'' = Some (JStr (projectId args))
     \<and> map_of kvs ''name'' = Some (JStr (name tr))
     \<and> map_of kvs ''steps'' = Some (JArr (map json_of_StepSpec specs))
     \<and> map_of kvs ''classname''
         = Some (json_of_optional (map_of (Object_fromEntries (nullish (labels tr) [])) ''testClass''))
     \<and> map_of kvs ''namespace''
         = Some (json_of_optional (map_of (Object_fromEntries (nullish (labels tr) [])) ''package''))
     \<and> set (map fst kvs) \<inter> outcome_fields = {}"
  by (simp add: updateBody_def autotestData_def Let_def outcome_fields_def)

lemma createBody_fields:
  "\<exists>kvs. createBody args tr specs rs s1 s2 = JObj kvs
     \<and> map fst kvs = [''configurationId'', ''externalId'', ''projectId'', ''name'', ''steps'',
                      ''classname'', ''namespace'', ''duration'', ''startedOn'', ''completedOn'',
                      ''outcome'', ''stepResults'']
     \<and> map_of kvs ''configurationId'' = Some (JStr (configurationId args))
     \<and> map_of kvs ''externalId'' = Some (JStr (historyId tr))
     \<and> map_of kvs ''projectId'' = Some (JStr (projectId args))
     \<and> map_of kvs ''name'' = Some (JStr (name tr))
     \<and> map_of kvs ''steps'' = Some (JArr (map json_of_StepSpec specs))
     \<and> map_of kvs ''duration'' = Some (json_of_number (duration (start tr) (stop tr)))
     \<and> map_of kvs ''startedOn'' = Some (json_of_timestamp s1)
     \<and> map_of kvs ''completedOn'' = Some (json_of_timestamp s2)
     \<and> map_of kvs ''outcome'' = Some (JStr (allureStatusToOutcome (status tr)))
     \<and> map_of kvs ''stepResults'' = Some (JArr (map json_of_StepResult rs))
     \<and> outcome_fields \<subseteq> set (map fst kvs)
     \<and> (\<forall>k\<in>outcome_fields. map_of kvs k \<noteq> None \<and> map_of kvs k \<noteq> Some JUndefined)"
  by (simp add: createBody_def autotestData_def Let_def outcome_fields_def json_of_timestamp_def
                json_of_number_def
           split: option.splits number.splits)






section \<open>A call ends before its response\<close>


end
